theory Spec2Isabelle
  imports Complex_Main "HOL-Library.Char_ord" "HOL-Library.List_Lexorder" "HOL-Library.Product_Lexorder"
    "HOL-Library.Option_ord"
begin

section \<open>Numbers, errors and constants of \<^verbatim>\<open>build_counterfactual.py\<close>\<close>

text \<open>
  The script computes with Python floats. They are modelled by exact rationals, so every
  statement below is about the arithmetic the script intends, not about binary rounding
  error. A cell of a table that holds NaN (or a column that is absent) is \<open>None\<close>; the
  script tests for it explicitly wherever it reads the generation table.
\<close>

datatype error = KeyError | IndexError | ValueError | TypeError | AttributeError

definition START_YEAR :: int where
  "START_YEAR = 1989"

definition END_YEAR :: int where
  "END_YEAR = 2025"

definition BUILD_START_YEAR :: int where
  "BUILD_START_YEAR = 1990"

definition RENEWABLE_FREEZE_YEAR :: int where
  "RENEWABLE_FREEZE_YEAR = 1998"

definition HOURS_PER_YEAR :: rat where
  "HOURS_PER_YEAR = 8760"

definition NUCLEAR_CAPACITY_FACTOR :: rat where
  "NUCLEAR_CAPACITY_FACTOR = 9 / 10"

text \<open>
  Python's \<^verbatim>\<open>round(x, n)\<close> rounds to \<open>n\<close> decimals, a tie going to the even
  neighbour.
\<close>

definition round_half_even :: "rat \<Rightarrow> int" where
  "round_half_even x =
     (let f = \<lfloor>x\<rfloor>; d = x - of_int f
      in if d < 1 / 2 then f
         else if 1 / 2 < d then f + 1
         else if even f then f else f + 1)"

definition py_round :: "rat \<Rightarrow> nat \<Rightarrow> rat" where
  "py_round x n = of_int (round_half_even (x * 10 ^ n)) / 10 ^ n"

section \<open>The emissions projector: \<^verbatim>\<open>compute_emissions_timeseries\<close>\<close>

subsection \<open>Tables\<close>

text \<open>The keys of \<^verbatim>\<open>GENERATION_COLUMNS\<close>, each standing for its column of the generation table.\<close>

datatype column =
  Coal | Gas | Nuclear | Hydro | Solar | Oil | Wind | Bioenergy | Other_renewables

record generation_row =
  Year :: int
  cells :: "column \<Rightarrow> rat option"

definition FOSSIL_GENERATION_COLUMNS :: "column list" where
  "FOSSIL_GENERATION_COLUMNS = [Coal, Gas, Oil]"

definition RENEWABLE_GENERATION_COLUMNS :: "column list" where
  "RENEWABLE_GENERATION_COLUMNS = [Hydro, Solar, Wind, Bioenergy, Other_renewables]"

definition EMISSIONS_FACTORS_TON_PER_MWH :: "(column \<times> rat) list" where
  "EMISSIONS_FACTORS_TON_PER_MWH =
     [(Coal, 95 / 100), (Gas, 45 / 100), (Oil, 78 / 100), (Nuclear, 1 / 100),
      (Hydro, 0), (Solar, 0), (Wind, 0), (Bioenergy, 0), (Other_renewables, 0)]"

record capacity_row =
  cap_year :: int
  nuclear_mw :: rat
  fossil_mw :: rat
  other_mw :: rat
  total_mw :: rat

record breakdown_row =
  bd_year :: int
  fossil_hard_coal_mw :: rat
  fossil_lignite_mw :: rat
  fossil_natural_gas_mw :: rat
  fossil_oil_mw :: rat

record emissions_record =
  year :: int
  fossil_twh :: rat
  nuclear_twh :: rat
  renewables_twh :: rat
  total_twh :: rat
  co2_mt :: rat
  clean_twh :: rat

record emissions_result =
  historical :: "emissions_record list"
  counterfactual :: "emissions_record list"

text \<open>
  \<^verbatim>\<open>table.set_index("year").loc[year]\<close>: a missing year raises KeyError. With the
  year present more than once pandas hands back a frame, not a row, and the arithmetic
  on it raises (\<open>err\<close> is the exception of the first use).
\<close>

definition loc :: "('r \<Rightarrow> int) \<Rightarrow> error \<Rightarrow> 'r list \<Rightarrow> int \<Rightarrow> error + 'r" where
  "loc key err rows y =
     (case filter (\<lambda>r. key r = y) rows of
        [] \<Rightarrow> Inl KeyError
      | [r] \<Rightarrow> Inr r
      | _ \<Rightarrow> Inl err)"

definition base_value :: "generation_row \<Rightarrow> column \<Rightarrow> rat" where
  "base_value row c = (case cells row c of None \<Rightarrow> 0 | Some v \<Rightarrow> v)"

definition get_value :: "generation_row \<Rightarrow> column \<Rightarrow> rat" where
  "get_value data c = (case cells data c of None \<Rightarrow> 0 | Some v \<Rightarrow> v)"

subsection \<open>One year of the loop\<close>

definition co2_of :: "(column \<Rightarrow> rat) \<Rightarrow> rat" where
  "co2_of value_twh =
     fold (\<lambda>(c, factor) co2. co2 + value_twh c * factor) EMISSIONS_FACTORS_TON_PER_MWH 0"

definition actual_record :: "generation_row \<Rightarrow> emissions_record" where
  "actual_record data =
     (let fossil = sum_list (map (get_value data) FOSSIL_GENERATION_COLUMNS);
          nuclear_actual = get_value data Nuclear;
          renewables = sum_list (map (get_value data) RENEWABLE_GENERATION_COLUMNS);
          total = fossil + nuclear_actual + renewables;
          co2 = co2_of (get_value data)
      in \<lparr> year = Year data,
           fossil_twh = py_round fossil 2,
           nuclear_twh = py_round nuclear_actual 2,
           renewables_twh = py_round renewables 2,
           total_twh = py_round total 2,
           co2_mt = py_round co2 2,
           clean_twh = py_round (nuclear_actual + renewables) 2 \<rparr>)"

text \<open>Lines 932 to 943: the counterfactual nuclear output of the year.\<close>

definition cf_nuclear_twh_of :: "rat \<Rightarrow> rat \<Rightarrow> int \<Rightarrow> capacity_row \<Rightarrow> capacity_row \<Rightarrow> rat" where
  "cf_nuclear_twh_of baseline_nuclear_twh prev_cf_nuclear_twh y actual_row cf_row =
     (let additional_nuclear_capacity = max (nuclear_mw cf_row - nuclear_mw actual_row) 0;
          potential_extra_nuclear_twh =
            (if y \<le> START_YEAR then 0
             else additional_nuclear_capacity * HOURS_PER_YEAR * NUCLEAR_CAPACITY_FACTOR / 1000000);
          available_max_nuclear_twh = baseline_nuclear_twh + potential_extra_nuclear_twh
      in max prev_cf_nuclear_twh available_max_nuclear_twh)"

text \<open>Lines 944 to 947.\<close>

definition cf_renewables_twh_of :: "rat \<Rightarrow> int \<Rightarrow> rat \<Rightarrow> rat" where
  "cf_renewables_twh_of frozen_renewables_total y renewables =
     (if y < RENEWABLE_FREEZE_YEAR then renewables else frozen_renewables_total)"

text \<open>
  Lines 956 to 1000: the required fossil energy is split over coal, gas and oil. The result
  is the three scaled values and the value of \<^verbatim>\<open>cf_fossil_twh\<close> after the split,
  which the last two branches set to zero.
\<close>

definition split_fossil ::
  "generation_row \<Rightarrow> breakdown_row \<Rightarrow> breakdown_row \<Rightarrow> rat \<Rightarrow> (column \<Rightarrow> rat) \<times> rat" where
  "split_fossil data breakdown_actual_row breakdown_cf_row cf_fossil =
     (let coal_actual_cap = fossil_hard_coal_mw breakdown_actual_row + fossil_lignite_mw breakdown_actual_row;
          coal_cf_cap = fossil_hard_coal_mw breakdown_cf_row + fossil_lignite_mw breakdown_cf_row;
          gas_actual_cap = fossil_natural_gas_mw breakdown_actual_row;
          gas_cf_cap = fossil_natural_gas_mw breakdown_cf_row;
          oil_actual_cap = fossil_oil_mw breakdown_actual_row;
          oil_cf_cap = fossil_oil_mw breakdown_cf_row;
          coal_ratio = (if 0 < coal_actual_cap then coal_cf_cap / coal_actual_cap else 0);
          gas_ratio = (if 0 < gas_actual_cap then gas_cf_cap / gas_actual_cap else 0);
          oil_ratio = (if 0 < oil_actual_cap then oil_cf_cap / oil_actual_cap else 0);
          scaled_fossil = (\<lambda>c. if c = Coal then get_value data Coal * coal_ratio
                                else if c = Gas then get_value data Gas * gas_ratio
                                else if c = Oil then get_value data Oil * oil_ratio
                                else 0);
          scaled_total = sum_list (map scaled_fossil FOSSIL_GENERATION_COLUMNS)
      in if 0 < cf_fossil \<and> 0 < scaled_total then
           (let adjust_factor = cf_fossil / scaled_total
            in (\<lambda>c. scaled_fossil c * adjust_factor, cf_fossil))
         else if 0 < cf_fossil \<and> scaled_total \<le> 0 then
           (let cap_total_cf = coal_cf_cap + gas_cf_cap + oil_cf_cap
            in if 0 < cap_total_cf then
                 (\<lambda>c. if c = Coal then cf_fossil * (coal_cf_cap / cap_total_cf)
                       else if c = Gas then cf_fossil * (gas_cf_cap / cap_total_cf)
                       else if c = Oil then cf_fossil * (oil_cf_cap / cap_total_cf)
                       else 0, cf_fossil)
               else (\<lambda>c. 0, 0))
         else (\<lambda>c. 0, 0))"

text \<open>
  The body of the loop over the generation rows (lines 901 to 1035): the historical record,
  the counterfactual record and the new \<^verbatim>\<open>prev_cf_nuclear_twh\<close>.
\<close>

definition emissions_year ::
  "capacity_row list \<Rightarrow> capacity_row list \<Rightarrow> breakdown_row list \<Rightarrow> breakdown_row list \<Rightarrow>
   rat \<Rightarrow> (column \<Rightarrow> rat) \<Rightarrow> rat \<Rightarrow> rat \<Rightarrow> generation_row \<Rightarrow>
   error + (emissions_record \<times> emissions_record \<times> rat)" where
  "emissions_year actual_capacity counterfactual_capacity actual_breakdown counterfactual_breakdown
     baseline_nuclear_twh renewable_freeze_map frozen_renewables_total prev_cf_nuclear_twh data =
     (let y = Year data;
          fossil = sum_list (map (get_value data) FOSSIL_GENERATION_COLUMNS);
          nuclear_actual = get_value data Nuclear;
          renewables = sum_list (map (get_value data) RENEWABLE_GENERATION_COLUMNS);
          total = fossil + nuclear_actual + renewables;
          record_actual = actual_record data
      in (case loc cap_year ValueError actual_capacity y of
            Inl e \<Rightarrow> Inl e
          | Inr actual_row \<Rightarrow>
         (case loc cap_year ValueError counterfactual_capacity y of
            Inl e \<Rightarrow> Inl e
          | Inr cf_row \<Rightarrow>
         (let cf_nuclear = cf_nuclear_twh_of baseline_nuclear_twh prev_cf_nuclear_twh y actual_row cf_row;
              cf_renewables = cf_renewables_twh_of frozen_renewables_total y renewables;
              cf_other = 0;
              potential_without_fossil = cf_nuclear + cf_renewables + cf_other;
              required_total = total;
              required_fossil = max (required_total - potential_without_fossil) 0;
              cf_total = potential_without_fossil + required_fossil
          in (case loc bd_year TypeError actual_breakdown y of
                Inl e \<Rightarrow> Inl e
              | Inr breakdown_actual_row \<Rightarrow>
             (case loc bd_year TypeError counterfactual_breakdown y of
                Inl e \<Rightarrow> Inl e
              | Inr breakdown_cf_row \<Rightarrow>
             (let (scaled_fossil, cf_fossil) =
                    split_fossil data breakdown_actual_row breakdown_cf_row required_fossil;
                  cf_clean = cf_nuclear + cf_renewables;
                  cf_co2 = co2_of (\<lambda>c.
                      if c = Nuclear then cf_nuclear
                      else if c \<in> set FOSSIL_GENERATION_COLUMNS then scaled_fossil c
                      else if c \<in> set RENEWABLE_GENERATION_COLUMNS then
                        (if y < RENEWABLE_FREEZE_YEAR then get_value data c else renewable_freeze_map c)
                      else get_value data c);
                  record_cf = \<lparr> year = y,
                                fossil_twh = py_round cf_fossil 2,
                                nuclear_twh = py_round cf_nuclear 2,
                                renewables_twh = py_round cf_renewables 2,
                                total_twh = py_round cf_total 2,
                                co2_mt = py_round cf_co2 2,
                                clean_twh = py_round cf_clean 2 \<rparr>
              in Inr (record_actual,
                      if y \<le> START_YEAR then record_actual else record_cf,
                      cf_nuclear))))))))"

fun emissions_loop ::
  "(rat \<Rightarrow> generation_row \<Rightarrow> error + (emissions_record \<times> emissions_record \<times> rat)) \<Rightarrow>
   rat \<Rightarrow> generation_row list \<Rightarrow> error + emissions_result" where
  "emissions_loop body prev_cf_nuclear_twh [] = Inr \<lparr> historical = [], counterfactual = [] \<rparr>"
| "emissions_loop body prev_cf_nuclear_twh (data # rest) =
     (case body prev_cf_nuclear_twh data of
        Inl e \<Rightarrow> Inl e
      | Inr (record_actual, record_cf, cf_nuclear) \<Rightarrow>
          (case emissions_loop body cf_nuclear rest of
             Inl e \<Rightarrow> Inl e
           | Inr out \<Rightarrow> Inr \<lparr> historical = record_actual # historical out,
                                counterfactual = record_cf # counterfactual out \<rparr>))"

definition compute_emissions_timeseries ::
  "generation_row list \<Rightarrow> capacity_row list \<Rightarrow> capacity_row list \<Rightarrow>
   breakdown_row list \<Rightarrow> breakdown_row list \<Rightarrow> error + emissions_result" where
  "compute_emissions_timeseries generation actual_capacity counterfactual_capacity
     actual_breakdown counterfactual_breakdown =
     (case generation of
        [] \<Rightarrow> Inl IndexError
      | first_row # _ \<Rightarrow>
          (let baseline_row = (case filter (\<lambda>r. Year r = START_YEAR) generation of
                                 [] \<Rightarrow> first_row | r # _ \<Rightarrow> r);
               freeze_row = (case filter (\<lambda>r. Year r = RENEWABLE_FREEZE_YEAR) generation of
                               [] \<Rightarrow> baseline_row | r # _ \<Rightarrow> r);
               baseline_nuclear_twh = base_value baseline_row Nuclear;
               renewable_freeze_map = base_value freeze_row;
               frozen_renewables_total = sum_list (map renewable_freeze_map RENEWABLE_GENERATION_COLUMNS)
           in emissions_loop
                (emissions_year actual_capacity counterfactual_capacity actual_breakdown
                   counterfactual_breakdown baseline_nuclear_twh renewable_freeze_map
                   frozen_renewables_total)
                baseline_nuclear_twh generation))"

section \<open>The plant table and the closure selector\<close>

subsection \<open>Strings\<close>

text \<open>
  Strings are byte strings in UTF-8. \<^verbatim>\<open>str.lower\<close> is modelled for ASCII letters and for
  the capital letters of the Latin-1 supplement (the two-byte sequences \<open>C3 80\<close> to
  \<open>C3 9E\<close> without the multiplication sign \<open>C3 97\<close>), which covers German text; other
  scripts are left as they are. \<^verbatim>\<open>str.strip\<close> removes the ASCII whitespace characters.
\<close>

definition lower_ascii :: "char \<Rightarrow> char" where
  "lower_ascii c =
     (let n = (of_char c :: nat) in if 65 \<le> n \<and> n \<le> 90 then char_of (n + 32) else c)"

fun lower :: "string \<Rightarrow> string" where
  "lower [] = []"
| "lower [c] = [lower_ascii c]"
| "lower (c # d # cs) =
     (let m = (of_char c :: nat); n = (of_char d :: nat)
      in if m = 195 \<and> 128 \<le> n \<and> n \<le> 158 \<and> n \<noteq> 151 then c # char_of (n + 32) # lower cs
         else lower_ascii c # lower (d # cs))"

fun starts_with :: "string \<Rightarrow> string \<Rightarrow> bool" where
  "starts_with [] s = True"
| "starts_with (p # ps) [] = False"
| "starts_with (p # ps) (c # cs) = (p = c \<and> starts_with ps cs)"

text \<open>\<^verbatim>\<open>needle in haystack\<close>.\<close>

fun contains :: "string \<Rightarrow> string \<Rightarrow> bool" where
  "contains needle [] = (needle = [])"
| "contains needle (c # cs) = (starts_with needle (c # cs) \<or> contains needle cs)"

definition is_space :: "char \<Rightarrow> bool" where
  "is_space c = (let n = (of_char c :: nat) in (9 \<le> n \<and> n \<le> 13) \<or> (28 \<le> n \<and> n \<le> 32))"

definition strip :: "string \<Rightarrow> string" where
  "strip s = rev (dropWhile is_space (rev (dropWhile is_space s)))"

subsection \<open>Plants\<close>

text \<open>
  A row of the plant table. The loader leaves NaN where a cell is empty: a missing year is
  \<open>None\<close> (the column is a nullable integer), and so is a missing municipality or technology,
  which the script tests for with \<^verbatim>\<open>isinstance(..., str)\<close>. Every row is taken to have a
  name, a fuel bucket and a capacity.
\<close>

record plant_row =
  Index :: int
  row_name :: string
  row_municipality :: "string option"
  row_fuel_bucket :: string
  row_technology :: "string option"
  row_capacity_mw :: rat
  row_commission_year :: "int option"
  row_closure_year :: "int option"

record PlantRecord =
  record_id :: int
  name :: string
  municipality :: string
  fuel_bucket :: string
  technology :: "string option"
  capacity_mw :: rat
  commission_year :: "int option"
  closure_year :: "int option"
  is_cogeneration :: bool

definition descriptor :: "PlantRecord \<Rightarrow> string" where
  "descriptor self =
     (let m = strip (municipality self)
      in if m \<noteq> [] then name self @ '' ('' @ m @ '')'' else name self)"

definition COGEN_KEYWORDS :: "string list" where
  "COGEN_KEYWORDS =
     [''chp'', ''kwk'', ''cogen'', ''cogeneration'', ''fern'', ''warme'',
      ''w'' @ [char_of (195 :: nat), char_of (164 :: nat)] @ ''rme'', ''heiz'']"

definition FUEL_PRIORITY :: "(string \<times> nat) list" where
  "FUEL_PRIORITY = [(''lignite'', 0), (''hard_coal'', 0), (''oil'', 1), (''natural_gas'', 2)]"

definition FOSSIL_FUELS :: "string set" where
  "FOSSIL_FUELS = {''hard_coal'', ''lignite'', ''natural_gas'', ''oil''}"

definition FOSSIL_FUEL_KEYS :: "string list" where
  "FOSSIL_FUEL_KEYS = [''hard_coal'', ''lignite'', ''natural_gas'', ''oil'']"

definition EXCLUDED_FOSSIL_PATTERNS :: "string list" where
  "EXCLUDED_FOSSIL_PATTERNS =
     [''HKW'', ''Heiz'', ''Fern'',
      ''W'' @ [char_of (195 :: nat), char_of (164 :: nat)] @ ''rme'', ''KWK'', ''Cogen'', ''CHP'']"

subsection \<open>\<^verbatim>\<open>build_fossil_candidate_pools\<close>\<close>

text \<open>The sort key of line 329: a tuple, compared lexicographically.\<close>

definition closure_order_key :: "PlantRecord \<Rightarrow> nat \<times> bool \<times> int \<times> rat" where
  "closure_order_key record =
     (case map_of FUEL_PRIORITY (fuel_bucket record) of None \<Rightarrow> 3 | Some p \<Rightarrow> p,
      is_cogeneration record,
      case commission_year record of None \<Rightarrow> 9999 | Some y \<Rightarrow> y,
      capacity_mw record)"

definition as_record :: "plant_row \<Rightarrow> PlantRecord" where
  "as_record row =
     (let name_value = row_name row;
          technology_value = (case row_technology row of None \<Rightarrow> [] | Some t \<Rightarrow> t);
          text_blob = lower (name_value @ '' '' @ technology_value);
          is_cogen = (\<exists>keyword \<in> set COGEN_KEYWORDS. contains keyword text_blob)
      in \<lparr> record_id = Index row,
           name = row_name row,
           municipality = (case row_municipality row of None \<Rightarrow> [] | Some m \<Rightarrow> m),
           fuel_bucket = row_fuel_bucket row,
           technology = row_technology row,
           capacity_mw = row_capacity_mw row,
           commission_year = row_commission_year row,
           closure_year = row_closure_year row,
           is_cogeneration = is_cogen \<rparr>)"

text \<open>\<^verbatim>\<open>list.sort\<close> is stable, as \<open>sort_key\<close> is.\<close>

definition as_records :: "plant_row list \<Rightarrow> PlantRecord list" where
  "as_records df = sort_key closure_order_key (map as_record df)"

text \<open>
  \<^verbatim>\<open>str.contains(pattern, case=False, na=False)\<close>: a search that ignores case; the patterns
  have no regular expression operators.
\<close>

definition name_matches :: "string \<Rightarrow> string \<Rightarrow> bool" where
  "name_matches pattern s = contains (lower pattern) (lower s)"

definition build_fossil_candidate_pools :: "plant_row list \<Rightarrow> PlantRecord list \<times> PlantRecord list" where
  "build_fossil_candidate_pools plants =
     (let fossil_plants = filter (\<lambda>row. row_fuel_bucket row \<in> FOSSIL_FUELS) plants;
          mask = (\<lambda>row. \<forall>pattern \<in> set EXCLUDED_FOSSIL_PATTERNS. \<not> name_matches pattern (row_name row));
          primary = as_records (filter mask fossil_plants);
          fallback = as_records (filter (\<lambda>row. \<not> mask row) fossil_plants)
      in (primary, fallback))"

subsection \<open>\<^verbatim>\<open>pick_fossil_closures\<close>\<close>

text \<open>
  The selector appends to \<^verbatim>\<open>closings\<close>, adds to the caller's set \<^verbatim>\<open>closed_ids\<close> and
  updates two numbers; the model passes them along as a state and returns the set with the
  result.
\<close>

record closure_state =
  st_closings :: "PlantRecord list"
  st_closed_ids :: "int set"
  st_total_closed :: rat
  st_remaining_needed :: rat

fun consume :: "int \<Rightarrow> rat \<Rightarrow> PlantRecord list \<Rightarrow> closure_state \<Rightarrow> closure_state" where
  "consume y capacity_needed [] st = st"
| "consume y capacity_needed (record # pool) st =
     (if st_remaining_needed st \<le> 1 / 1000000 then st
      else if record_id record \<in> st_closed_ids st then consume y capacity_needed pool st
      else if (case commission_year record of None \<Rightarrow> False | Some c \<Rightarrow> y < c) then
        consume y capacity_needed pool st
      else if (case closure_year record of None \<Rightarrow> False | Some c \<Rightarrow> c < y) then
        consume y capacity_needed pool st
      else if st_remaining_needed st + 1 / 1000000 < capacity_mw record then
        consume y capacity_needed pool st
      else
        (let total = st_total_closed st + capacity_mw record;
             st' = \<lparr> st_closings = st_closings st @ [record],
                     st_closed_ids = insert (record_id record) (st_closed_ids st),
                     st_total_closed = total,
                     st_remaining_needed = max 0 (capacity_needed - total) \<rparr>
         in if st_remaining_needed st' \<le> 1 / 1000000 then st'
            else consume y capacity_needed pool st'))"

definition pick_fossil_closures ::
  "int \<Rightarrow> rat \<Rightarrow> rat \<Rightarrow> PlantRecord list \<Rightarrow> PlantRecord list \<Rightarrow> int set \<Rightarrow>
   PlantRecord list \<times> rat \<times> int set" where
  "pick_fossil_closures y capacity_needed running_fossil primary_pool fallback_pool ids =
     (if running_fossil \<le> 0 \<or> capacity_needed \<le> 0 then ([], 0, ids)
      else
        (let remaining = max capacity_needed 0
         in if remaining \<le> 1 / 1000000 then ([], 0, ids)
            else
              (let st0 = \<lparr> st_closings = [], st_closed_ids = ids, st_total_closed = 0,
                           st_remaining_needed = remaining \<rparr>;
                   st1 = consume y capacity_needed primary_pool st0;
                   st2 = (if 1 / 1000000 < st_remaining_needed st1
                          then consume y capacity_needed fallback_pool st1 else st1)
               in (st_closings st2, min (st_total_closed st2) running_fossil, st_closed_ids st2))))"

text \<open>Lines 518 to 520 of the simulator: what the selector left open of the target.\<close>

definition residual_closure_of :: "rat \<Rightarrow> rat \<Rightarrow> rat" where
  "residual_closure_of closure_target_mw fossil_closed =
     (if 0 < closure_target_mw \<and> fossil_closed < closure_target_mw
      then closure_target_mw - fossil_closed else 0)"

section \<open>The capacity ledger\<close>

definition is_active :: "int \<Rightarrow> plant_row \<Rightarrow> bool" where
  "is_active y row =
     ((case row_commission_year row of None \<Rightarrow> True | Some c \<Rightarrow> c \<le> y) \<and>
      (case row_closure_year row of None \<Rightarrow> True | Some c \<Rightarrow> y \<le> c))"

definition capacity_sum :: "plant_row list \<Rightarrow> rat" where
  "capacity_sum rows = sum_list (map row_capacity_mw rows)"

definition capacity_of_year :: "plant_row list \<Rightarrow> int \<Rightarrow> capacity_row" where
  "capacity_of_year plants y =
     (let active = filter (is_active y) plants;
          nuclear = capacity_sum (filter (\<lambda>row. row_fuel_bucket row = ''nuclear'') active);
          fossil = capacity_sum (filter (\<lambda>row. row_fuel_bucket row \<in> FOSSIL_FUELS) active);
          other = capacity_sum
            (filter (\<lambda>row. row_fuel_bucket row \<notin> FOSSIL_FUELS \<union> {''nuclear''}) active);
          total = nuclear + fossil + other
      in \<lparr> cap_year = y, nuclear_mw = nuclear, fossil_mw = fossil, other_mw = other,
           total_mw = total \<rparr>)"

definition compute_capacity_by_year :: "plant_row list \<Rightarrow> int \<Rightarrow> int \<Rightarrow> capacity_row list" where
  "compute_capacity_by_year plants start_year end_year =
     map (capacity_of_year plants) [start_year..end_year]"

definition breakdown_of_year :: "plant_row list \<Rightarrow> int \<Rightarrow> breakdown_row" where
  "breakdown_of_year plants y =
     (let active = filter (is_active y) plants;
          fossil_active = filter (\<lambda>row. row_fuel_bucket row \<in> FOSSIL_FUELS) active;
          breakdown = (\<lambda>fuel. capacity_sum (filter (\<lambda>row. row_fuel_bucket row = fuel) fossil_active))
      in \<lparr> bd_year = y,
           fossil_hard_coal_mw = breakdown ''hard_coal'',
           fossil_lignite_mw = breakdown ''lignite'',
           fossil_natural_gas_mw = breakdown ''natural_gas'',
           fossil_oil_mw = breakdown ''oil'' \<rparr>)"

definition compute_fossil_breakdown_by_year :: "plant_row list \<Rightarrow> int \<Rightarrow> int \<Rightarrow> breakdown_row list" where
  "compute_fossil_breakdown_by_year plants start_year end_year =
     map (breakdown_of_year plants) [start_year..end_year]"

section \<open>The counterfactual simulator: \<^verbatim>\<open>build_counterfactual_events\<close>\<close>

subsection \<open>Constants and small helpers\<close>

definition NUCLEAR_CAPACITY_SEQUENCE :: "rat list" where
  "NUCLEAR_CAPACITY_SEQUENCE = [1410]"

definition UNITS_PER_YEAR_PATTERN :: "nat list" where
  "UNITS_PER_YEAR_PATTERN = [2, 1]"

definition EVENT_MONTHS :: "(nat \<times> nat list) list" where
  "EVENT_MONTHS = [(1, [7]), (2, [4, 10]), (3, [3, 7, 11])]"

definition existing_site_pattern :: "bool list" where
  "existing_site_pattern = [True, True, True, False]"

text \<open>\<^verbatim>\<open>a or b\<close> on strings, and \<^verbatim>\<open>d.get(key, "")\<close> on a dictionary of strings.\<close>

definition or_else :: "string \<Rightarrow> string \<Rightarrow> string" where
  "or_else a b = (if a \<noteq> [] then a else b)"

definition get_str :: "(string \<Rightarrow> string option) \<Rightarrow> string \<Rightarrow> string" where
  "get_str d key = (case d key of None \<Rightarrow> [] | Some v \<Rightarrow> v)"

text \<open>Decimal digits of a number, for \<^verbatim>\<open>f"Unit {n}"\<close> and the event dates.\<close>

fun digits :: "nat \<Rightarrow> string" where
  "digits n = (if n < 10 then [char_of (48 + n)] else digits (n div 10) @ [char_of (48 + n mod 10)])"

declare digits.simps [simp del]

definition str_int :: "int \<Rightarrow> string" where
  "str_int i = (if i < 0 then ''-'' @ digits (nat (- i)) else digits (nat i))"

definition two_digits :: "nat \<Rightarrow> string" where
  "two_digits n = (if n < 10 then ''0'' @ digits n else digits n)"

definition event_date_of :: "int \<Rightarrow> nat \<Rightarrow> string" where
  "event_date_of y month_value = str_int y @ ''-'' @ two_digits month_value @ ''-01''"

subsection \<open>Events and yearly rows\<close>

text \<open>
  An event is a dictionary; the keys every event has are fields, the keys that depend on the
  kind of event are the payload.
\<close>

datatype event_payload =
    Counterfactual_closure
      (fuel: string) (mw_removed: rat) (fossil_capacity_closed_mw: rat)
      (dummy_capacity_closed_mw: rat) (closure_running_fossil_mw: rat) (residual_only: bool)
  | Nuclear_build
      (mw_added: rat) (running_nuclear_mw: rat) (running_fossil_mw: rat) (running_total_mw: rat)
      (fossil_sites_closed: "string list") (build_fossil_capacity_closed_mw: rat)
      (dummy_fossil_capacity_closed_mw: rat) (annual_generation_capacity_twh: rat)
  | Historical_fossil_build string rat rat
  | Historical_fossil_closure string rat rat
  | Historical_nuclear_closure rat rat

record event =
  ev_date :: string
  ev_year :: int
  ev_site :: string
  ev_name :: string
  ev_event_type :: string
  ev_municipality :: string
  ev_payload :: event_payload

record timeseries_row =
  ts_year :: int
  ts_nuclear_mw :: rat
  ts_fossil_mw :: rat
  ts_other_mw :: rat
  ts_fossil_hard_coal_mw :: rat
  ts_fossil_lignite_mw :: rat
  ts_fossil_natural_gas_mw :: rat
  ts_fossil_oil_mw :: rat
  ts_total_mw :: rat

subsection \<open>Set-up before the loop\<close>

record baseline_stats =
  count :: int
  stats_capacity_mw :: rat

text \<open>
  \<^verbatim>\<open>build_municipality_baselines\<close> as it is defined when \<^verbatim>\<open>main\<close> runs (line 220; the
  second definition at the end of the file is read only after \<^verbatim>\<open>main\<close> has returned).
  The two dictionaries keep their insertion order. \<^verbatim>\<open>(row.municipality or "").strip()\<close>
  raises AttributeError on a NaN.
\<close>

definition add_baseline :: "string \<Rightarrow> rat \<Rightarrow> (string \<times> baseline_stats) list \<Rightarrow> (string \<times> baseline_stats) list" where
  "add_baseline key capacity d =
     (if key \<in> fst ` set d then
        map (\<lambda>(k, stats). if k = key
              then (k, \<lparr> count = count stats + 1, stats_capacity_mw = stats_capacity_mw stats + capacity \<rparr>)
              else (k, stats)) d
      else d @ [(key, \<lparr> count = 1, stats_capacity_mw = capacity \<rparr>)])"

record baselines_state =
  nuclear_baselines :: "(string \<times> baseline_stats) list"
  fossil_baselines :: "(string \<times> baseline_stats) list"
  seen_nuclear :: "string set"
  seen_fossil :: "string set"



fun municipality_baselines_loop :: "plant_row list \<Rightarrow> baselines_state \<Rightarrow> error + baselines_state" where
  "municipality_baselines_loop [] st = Inr st"
| "municipality_baselines_loop (row # rows) st =
     (if row_fuel_bucket row \<noteq> ''nuclear'' \<and> row_fuel_bucket row \<notin> FOSSIL_FUELS then
        municipality_baselines_loop rows st
      else
        (case row_municipality row of
           None \<Rightarrow> Inl AttributeError
         | Some m \<Rightarrow>
             (let municipality = strip m;
                  uniq = strip (row_name row)
              in if municipality = [] then municipality_baselines_loop rows st
                 else if row_fuel_bucket row = ''nuclear'' then
                   (if uniq \<in> seen_nuclear st then municipality_baselines_loop rows st
                    else municipality_baselines_loop rows
                      (st \<lparr> seen_nuclear := insert uniq (seen_nuclear st),
                            nuclear_baselines :=
                              add_baseline municipality (row_capacity_mw row) (nuclear_baselines st) \<rparr>))
                 else
                   (if uniq \<in> seen_fossil st then municipality_baselines_loop rows st
                    else municipality_baselines_loop rows
                      (st \<lparr> seen_fossil := insert uniq (seen_fossil st),
                            fossil_baselines :=
                              add_baseline municipality (row_capacity_mw row) (fossil_baselines st) \<rparr>)))))"

definition build_municipality_baselines :: "plant_row list \<Rightarrow> error + baselines_state" where
  "build_municipality_baselines plants =
     municipality_baselines_loop (filter (is_active START_YEAR) plants)
       \<lparr> nuclear_baselines = [], fossil_baselines = [], seen_nuclear = {}, seen_fossil = {} \<rparr>"

text \<open>Lines 405 to 412: the dictionary from plant names and municipalities to municipalities.\<close>

definition plant_municipality_map_of :: "plant_row list \<Rightarrow> string \<Rightarrow> string option" where
  "plant_municipality_map_of plants =
     fold (\<lambda>row d.
        case row_municipality row of
          None \<Rightarrow> d
        | Some m \<Rightarrow>
            (let nm = strip (row_name row); municipality = strip m
             in d(nm \<mapsto> municipality, nm @ '' ('' @ municipality @ '')'' \<mapsto> municipality,
                  municipality \<mapsto> municipality)))
       plants Map.empty"

text \<open>\<^verbatim>\<open>list(dict.fromkeys(xs))\<close>: the first occurrence of each element, in order.\<close>

definition dedup :: "'a list \<Rightarrow> 'a list" where
  "dedup xs = rev (remdups (rev xs))"

record planned_site =
  site :: string
  display :: string
  planned_municipality :: string

text \<open>
  What stays fixed during the loop. The planned sites come from
  \<^verbatim>\<open>load_planned_konvois\<close>, which reads a file; they are an input here.
\<close>

record sim_env =
  actual_capacity :: "capacity_row list"
  primary_pool :: "PlantRecord list"
  fallback_pool :: "PlantRecord list"
  plant_municipality_map :: "string \<Rightarrow> string option"
  planned_konvois :: "planned_site list"
  existing_nuclear_sites :: "string list"
  baseline_existing_sites :: "string list"

record sim_state =
  running_nuclear :: rat
  running_fossil :: rat
  closed_record_ids :: "int set"
  running_fossil_breakdown :: "(string \<times> rat) list"
  site_unit_counter :: "string \<Rightarrow> int option"
  post_planned_allocation_index :: nat
  nuclear_build_count :: nat
  events :: "event list"
  timeseries_rows :: "timeseries_row list"

subsection \<open>One unit: targets and selection\<close>

text \<open>Lines 493 to 495.\<close>

definition fossil_floor_of :: "rat \<Rightarrow> rat \<Rightarrow> rat \<Rightarrow> rat" where
  "fossil_floor_of actual_total_mw nuclear_after other_capacity =
     max 0 (actual_total_mw - (nuclear_after + other_capacity))"

definition closure_target_of :: "rat \<Rightarrow> rat \<Rightarrow> rat \<Rightarrow> rat" where
  "closure_target_of capacity_added fossil_before_closure fossil_floor_mw =
     (let allowed_shutdown_mw = max 0 (fossil_before_closure - fossil_floor_mw)
      in min capacity_added allowed_shutdown_mw)"

text \<open>Lines 497 to 508: the selector is called only for a positive target.\<close>

definition select_closures :: "sim_env \<Rightarrow> int \<Rightarrow> rat \<Rightarrow> sim_state \<Rightarrow> PlantRecord list \<times> rat \<times> int set" where
  "select_closures env y closure_target_mw st =
     (if 0 < closure_target_mw then
        pick_fossil_closures y closure_target_mw (running_fossil st) (primary_pool env)
          (fallback_pool env) (closed_record_ids st)
      else ([], 0, closed_record_ids st))"

text \<open>
  Lines 509 to 514: when the selector closed more than the target, its closures are undone.
  The result is the target, the closings, the closed capacity and the set of closed ids after
  the test.
\<close>

definition overshoot :: "rat \<Rightarrow> rat \<Rightarrow> bool" where
  "overshoot closure_target_mw fossil_closed = (closure_target_mw + 1 / 1000000 < fossil_closed)"

definition rollback_overshoot ::
  "rat \<Rightarrow> PlantRecord list \<times> rat \<times> int set \<Rightarrow> rat \<times> PlantRecord list \<times> rat \<times> int set" where
  "rollback_overshoot closure_target_mw selection =
     (case selection of (closings, fossil_closed, ids) \<Rightarrow>
        if overshoot closure_target_mw fossil_closed
        then (0, [], 0, ids - set (map record_id closings))
        else (closure_target_mw, closings, fossil_closed, ids))"

subsection \<open>One unit: the site\<close>

definition choose_existing_municipality :: "sim_env \<Rightarrow> sim_state \<Rightarrow> string option" where
  "choose_existing_municipality env st =
     (if baseline_existing_sites env = [] then None
      else Some (arg_min_list
                   (\<lambda>key. (case site_unit_counter st key of None \<Rightarrow> 0 | Some n \<Rightarrow> n, key))
                   (baseline_existing_sites env)))"

text \<open>
  Lines 522 to 579. The result is the site label, the municipality and the unit name; the
  state has the new unit counter and allocation index.
\<close>

definition allocate_site ::
  "sim_env \<Rightarrow> PlantRecord list \<Rightarrow> sim_state \<Rightarrow> (string \<times> string \<times> string) \<times> sim_state" where
  "allocate_site env closings st =
     (let n = nuclear_build_count st;
          planned = planned_konvois env;
          (label1, municipality1, index1) =
            (if n < length planned then
               (strip (display (planned ! n)), strip (planned_municipality (planned ! n)),
                post_planned_allocation_index st)
             else
               (let prefer_existing =
                      existing_site_pattern
                        ! (post_planned_allocation_index st mod length existing_site_pattern);
                    index1 = post_planned_allocation_index st + 1;
                    chosen = (if prefer_existing
                              then (case choose_existing_municipality env st of
                                      None \<Rightarrow> [] | Some c \<Rightarrow> c)
                              else [])
                in if chosen \<noteq> [] then (chosen, chosen, index1)
                   else
                     (case closings of
                        primary_closing # _ \<Rightarrow>
                          (let own = strip (municipality primary_closing);
                               descriptor_label = strip (descriptor primary_closing);
                               mapped_municipality =
                                 strip (get_str (plant_municipality_map env) descriptor_label);
                               site_municipality =
                                 (if own = [] \<and> mapped_municipality \<noteq> [] then mapped_municipality
                                  else own)
                           in (or_else site_municipality descriptor_label, site_municipality, index1))
                      | [] \<Rightarrow>
                          (let site_choice =
                                 existing_nuclear_sites env
                                   ! (n mod length (existing_nuclear_sites env));
                               mapped_municipality =
                                 strip (get_str (plant_municipality_map env) site_choice)
                           in (or_else mapped_municipality (strip site_choice),
                               mapped_municipality, index1)))));
          site_label = (if label1 = [] then or_else municipality1 ''New Nuclear Complex'' else label1);
          site_municipality =
            (if municipality1 = [] then strip (get_str (plant_municipality_map env) site_label)
             else municipality1);
          counter_key = or_else site_municipality site_label;
          current_units = (case site_unit_counter st counter_key of None \<Rightarrow> 0 | Some c \<Rightarrow> c) + 1;
          unit_name = ''Unit '' @ str_int current_units
      in ((site_label, site_municipality, unit_name),
          st \<lparr> site_unit_counter := (site_unit_counter st)(counter_key \<mapsto> current_units),
               post_planned_allocation_index := index1 \<rparr>))"

subsection \<open>One unit: the closure entries\<close>

definition sub_breakdown :: "string \<Rightarrow> rat \<Rightarrow> (string \<times> rat) list \<Rightarrow> (string \<times> rat) list" where
  "sub_breakdown bucket decrement breakdown =
     map (\<lambda>(k, v). if k = bucket then (k, max 0 (v - decrement)) else (k, v)) breakdown"

text \<open>Lines 589 to 615: one entry for each closed plant, the residual on the last one.\<close>

fun closure_loop ::
  "string \<Rightarrow> int \<Rightarrow> rat \<Rightarrow> rat \<Rightarrow> PlantRecord list \<Rightarrow> rat \<Rightarrow> (string \<times> rat) list \<Rightarrow>
   event list \<times> rat \<times> (string \<times> rat) list" where
  "closure_loop event_date y fossil_floor_mw dummy_to_allocate [] remaining breakdown =
     ([], remaining, breakdown)"
| "closure_loop event_date y fossil_floor_mw dummy_to_allocate (closing # rest) remaining breakdown =
     (let extra_dummy = (if 0 < dummy_to_allocate \<and> rest = [] then dummy_to_allocate else 0);
          decrement = capacity_mw closing + extra_dummy;
          remaining1 = max (remaining - decrement) fossil_floor_mw;
          breakdown1 = sub_breakdown (fuel_bucket closing) decrement breakdown;
          entry = \<lparr> ev_date = event_date, ev_year = y,
                    ev_site = (if municipality closing \<noteq> [] then municipality closing
                               else descriptor closing),
                    ev_name = descriptor closing,
                    ev_event_type = ''fossil_closure'',
                    ev_municipality = municipality closing,
                    ev_payload = Counterfactual_closure (fuel_bucket closing)
                      (py_round (capacity_mw closing) 1)
                      (py_round (capacity_mw closing + extra_dummy) 1)
                      (if extra_dummy \<noteq> 0 then py_round extra_dummy 1 else 0)
                      (py_round remaining1 1) False \<rparr>
      in case closure_loop event_date y fossil_floor_mw dummy_to_allocate rest remaining1 breakdown1 of
           (entries, remaining2, breakdown2) \<Rightarrow> (entry # entries, remaining2, breakdown2))"

text \<open>
  Lines 584 to 642: the entries of the unit, the remaining fossil capacity, the new breakdown
  and the list \<^verbatim>\<open>fossil_sites_closed\<close>.
\<close>

definition closure_entries_of ::
  "string \<Rightarrow> int \<Rightarrow> rat \<Rightarrow> rat \<Rightarrow> PlantRecord list \<Rightarrow> rat \<Rightarrow> (string \<times> rat) list \<Rightarrow>
   event list \<times> rat \<times> (string \<times> rat) list \<times> string list" where
  "closure_entries_of event_date y fossil_floor_mw residual_closure_mw closings fossil_before_closure
     breakdown =
     (let sites_closed = map descriptor closings;
          dummy_to_allocate = residual_closure_mw
      in if closings \<noteq> [] then
           (case closure_loop event_date y fossil_floor_mw dummy_to_allocate closings
                   fossil_before_closure breakdown of
              (entries, remaining, breakdown1) \<Rightarrow> (entries, remaining, breakdown1, sites_closed))
         else if 0 < dummy_to_allocate then
           (let remaining = max (fossil_before_closure - dummy_to_allocate) fossil_floor_mw;
                total_available = sum_list (map snd breakdown);
                breakdown1 =
                  (if 0 < total_available
                   then map (\<lambda>(k, v). (k, max 0 (v - dummy_to_allocate * (v / total_available))))
                          breakdown
                   else breakdown);
                entry = \<lparr> ev_date = event_date, ev_year = y,
                          ev_site = ''Residual fossil fleet'',
                          ev_name = ''Residual fossil fleet'',
                          ev_event_type = ''fossil_closure'',
                          ev_municipality = [],
                          ev_payload = Counterfactual_closure ''fossil'' 0
                            (py_round dummy_to_allocate 1) (py_round dummy_to_allocate 1)
                            (py_round remaining 1) True \<rparr>
            in ([entry], remaining, breakdown1, sites_closed @ [''Residual fossil fleet'']))
         else ([], fossil_before_closure, breakdown, sites_closed))"

subsection \<open>One unit, one year, all years\<close>

text \<open>Lines 581 and 582: the month of the unit's events.\<close>

definition event_month :: "nat \<Rightarrow> nat \<Rightarrow> nat" where
  "event_month units unit_index =
     (let months = (case map_of EVENT_MONTHS units of None \<Rightarrow> [6, 9, 12] | Some ms \<Rightarrow> ms)
      in months ! min unit_index (length months - 1))"

text \<open>The body of the loop over the units of a year (lines 487 to 667).\<close>

definition build_unit :: "sim_env \<Rightarrow> int \<Rightarrow> nat \<Rightarrow> rat \<Rightarrow> rat \<Rightarrow> nat \<Rightarrow> sim_state \<Rightarrow> sim_state" where
  "build_unit env y units year_other_capacity year_total_requirement unit_index st =
     (let capacity_added =
            NUCLEAR_CAPACITY_SEQUENCE ! (nuclear_build_count st mod length NUCLEAR_CAPACITY_SEQUENCE);
          other_capacity = year_other_capacity;
          actual_total_mw = year_total_requirement;
          fossil_before_closure = running_fossil st;
          nuclear_after = running_nuclear st + capacity_added;
          fossil_floor_mw = fossil_floor_of actual_total_mw nuclear_after other_capacity;
          target = closure_target_of capacity_added fossil_before_closure fossil_floor_mw
      in case rollback_overshoot target (select_closures env y target st) of
           (closure_target_mw, closings, fossil_closed, ids) \<Rightarrow>
      (let nuclear_now = running_nuclear st + capacity_added;
           residual_closure_mw = residual_closure_of closure_target_mw fossil_closed
       in case allocate_site env closings st of
            ((site_label, site_municipality, unit_name), st1) \<Rightarrow>
      (let month_value = event_month units unit_index;
           event_date = event_date_of y month_value
       in case closure_entries_of event_date y fossil_floor_mw residual_closure_mw closings
                 fossil_before_closure (running_fossil_breakdown st) of
            (closure_entries, remaining, breakdown, sites_closed) \<Rightarrow>
      (let fossil_now = max remaining fossil_floor_mw;
           running_total = nuclear_now + fossil_now + other_capacity;
           actual_closed_mw = fossil_closed + residual_closure_mw;
           build = \<lparr> ev_date = event_date, ev_year = y, ev_site = site_label,
                     ev_name = site_label @ '' '' @ unit_name,
                     ev_event_type = ''nuclear_build'',
                     ev_municipality = site_municipality,
                     ev_payload = Nuclear_build (py_round capacity_added 1) (py_round nuclear_now 1)
                       (py_round fossil_now 1) (py_round running_total 1) sites_closed
                       (py_round actual_closed_mw 1) (py_round residual_closure_mw 1)
                       (py_round (running_total * HOURS_PER_YEAR / 1000000) 2) \<rparr>
       in st1 \<lparr> running_nuclear := nuclear_now,
                running_fossil := fossil_now,
                closed_record_ids := ids,
                running_fossil_breakdown := breakdown,
                nuclear_build_count := nuclear_build_count st + 1,
                events := events st @ closure_entries @ [build] \<rparr>))))"

definition units_this_year :: "int \<Rightarrow> nat" where
  "units_this_year y =
     (if y < BUILD_START_YEAR then 0
      else UNITS_PER_YEAR_PATTERN ! nat ((y - BUILD_START_YEAR) mod int (length UNITS_PER_YEAR_PATTERN)))"

text \<open>
  Lines 473 to 479: the row of the actual capacity table for the year, or its last row when
  the year is missing (IndexError on an empty table).
\<close>

definition actual_row_of_year :: "capacity_row list \<Rightarrow> int \<Rightarrow> error + capacity_row" where
  "actual_row_of_year table y =
     (case filter (\<lambda>row. cap_year row = y) table of
        row # _ \<Rightarrow> Inr row
      | [] \<Rightarrow> (if table = [] then Inl IndexError else Inr (last table)))"

text \<open>Lines 674 to 680: \<^verbatim>\<open>other_mw\<close> of the year, or of the last year of the table.\<close>

definition other_mw_of_year :: "capacity_row list \<Rightarrow> int \<Rightarrow> error + rat" where
  "other_mw_of_year table y =
     (case filter (\<lambda>row. cap_year row = min y (Max (set (map cap_year table)))) table of
        row # _ \<Rightarrow> Inr (other_mw row)
      | [] \<Rightarrow> Inl IndexError)"

definition breakdown_get :: "(string \<times> rat) list \<Rightarrow> string \<Rightarrow> rat" where
  "breakdown_get breakdown bucket = (case map_of breakdown bucket of None \<Rightarrow> 0 | Some v \<Rightarrow> v)"

text \<open>The body of the loop over the years (lines 472 to 686).\<close>

definition simulate_year :: "sim_env \<Rightarrow> int \<Rightarrow> sim_state \<Rightarrow> error + sim_state" where
  "simulate_year env y st =
     (case actual_row_of_year (actual_capacity env) y of
        Inl e \<Rightarrow> Inl e
      | Inr actual_row_year \<Rightarrow>
          (let year_other_capacity = other_mw actual_row_year;
               year_total_requirement = total_mw actual_row_year;
               units = units_this_year y;
               st1 = fold (build_unit env y units year_other_capacity year_total_requirement)
                       [0..<units] st
           in case other_mw_of_year (actual_capacity env) y of
                Inl e \<Rightarrow> Inl e
              | Inr other \<Rightarrow>
                  Inr (st1 \<lparr> timeseries_rows := timeseries_rows st1 @
                         [\<lparr> ts_year = y,
                            ts_nuclear_mw = py_round (running_nuclear st1) 1,
                            ts_fossil_mw = py_round (running_fossil st1) 1,
                            ts_other_mw = other,
                            ts_fossil_hard_coal_mw =
                              py_round (breakdown_get (running_fossil_breakdown st1) ''hard_coal'') 1,
                            ts_fossil_lignite_mw =
                              py_round (breakdown_get (running_fossil_breakdown st1) ''lignite'') 1,
                            ts_fossil_natural_gas_mw =
                              py_round (breakdown_get (running_fossil_breakdown st1) ''natural_gas'') 1,
                            ts_fossil_oil_mw =
                              py_round (breakdown_get (running_fossil_breakdown st1) ''oil'') 1,
                            ts_total_mw = py_round (running_nuclear st1) 1
                              + py_round (running_fossil st1) 1 + other \<rparr>] \<rparr>)))"

fun simulate_years :: "sim_env \<Rightarrow> int list \<Rightarrow> sim_state \<Rightarrow> error + sim_state" where
  "simulate_years env [] st = Inr st"
| "simulate_years env (y # ys) st =
     (case simulate_year env y st of
        Inl e \<Rightarrow> Inl e
      | Inr st1 \<Rightarrow> simulate_years env ys st1)"

text \<open>
  Lines 437 to 452: the baseline sites and the starting unit counter, from the nuclear
  municipality baselines.
\<close>

definition baseline_sites_of ::
  "(string \<Rightarrow> string option) \<Rightarrow> string list \<Rightarrow> (string \<times> baseline_stats) list \<Rightarrow>
   string list \<times> (string \<Rightarrow> int option)" where
  "baseline_sites_of name_map nuclear_sites municipality_baselines_map =
     (let (sites, counter) =
            fold (\<lambda>(raw_key, stats) (sites, counter).
                let c = strip (or_else (get_str name_map raw_key) raw_key);
                    canonical = (if c = [] then raw_key else c)
                in (sites @ [canonical],
                    counter(canonical \<mapsto>
                      (case counter canonical of None \<Rightarrow> 0 | Some k \<Rightarrow> k) + count stats)))
              municipality_baselines_map ([], Map.empty)
      in if sites \<noteq> [] then (dedup sites, counter)
         else (filter (\<lambda>label. label \<noteq> [])
                 (map (\<lambda>nm. strip (or_else (get_str name_map nm) nm)) nuclear_sites),
               counter))"

definition build_counterfactual_events ::
  "plant_row list \<Rightarrow> planned_site list \<Rightarrow> capacity_row list \<Rightarrow> int \<Rightarrow> int \<Rightarrow>
   error + event list \<times> timeseries_row list" where
  "build_counterfactual_events plants planned actual start_year end_year =
     (let capacity_with_baseline = compute_capacity_by_year plants start_year end_year
      in if capacity_with_baseline = [] then Inl KeyError
         else
           (case filter (\<lambda>row. cap_year row = start_year) capacity_with_baseline of
              [] \<Rightarrow> Inl IndexError
            | baseline_row # _ \<Rightarrow>
           (case build_municipality_baselines plants of
              Inl e \<Rightarrow> Inl e
            | Inr baselines \<Rightarrow>
             (let pools = build_fossil_candidate_pools plants;
                  name_map = plant_municipality_map_of plants;
                  breakdown0 =
                    (case compute_fossil_breakdown_by_year plants start_year start_year of
                       [] \<Rightarrow> map (\<lambda>fuel. (fuel, 0)) FOSSIL_FUEL_KEYS
                     | initial_row # _ \<Rightarrow>
                         [(''hard_coal'', fossil_hard_coal_mw initial_row),
                          (''lignite'', fossil_lignite_mw initial_row),
                          (''natural_gas'', fossil_natural_gas_mw initial_row),
                          (''oil'', fossil_oil_mw initial_row)]);
                  nuclear_names =
                    map row_name (filter (\<lambda>row. row_fuel_bucket row = ''nuclear'') plants);
                  nuclear_sites =
                    (if nuclear_names = [] then [''Generic Nuclear Complex''] else nuclear_names);
                  (sites, counter) =
                    baseline_sites_of name_map nuclear_sites (nuclear_baselines baselines);
                  env = \<lparr> actual_capacity = actual,
                          primary_pool = fst pools,
                          fallback_pool = snd pools,
                          plant_municipality_map = name_map,
                          planned_konvois = planned,
                          existing_nuclear_sites = nuclear_sites,
                          baseline_existing_sites = sites \<rparr>;
                  st0 = \<lparr> running_nuclear = nuclear_mw baseline_row,
                          running_fossil = fossil_mw baseline_row,
                          closed_record_ids = {},
                          running_fossil_breakdown = breakdown0,
                          site_unit_counter = counter,
                          post_planned_allocation_index = 0,
                          nuclear_build_count = 0,
                          events = [],
                          timeseries_rows = [] \<rparr>
              in case simulate_years env [start_year..end_year] st0 of
                   Inl e \<Rightarrow> Inl e
                 | Inr st \<Rightarrow> Inr (events st, timeseries_rows st)))))"

section \<open>The historical events: \<^verbatim>\<open>build_historical_events\<close>\<close>

text \<open>
  A row of the fossil construction table; the commission year is the rounded nullable integer
  the function makes of the column first.
\<close>

record fossil_build_row =
  fb_commission_year :: "int option"
  fb_site :: "string option"
  fb_name :: string
  fb_type :: "string option"
  fb_capacity_mw :: rat
  fb_municipality :: "string option"

text \<open>\<^verbatim>\<open>sort_values\<close> puts missing values last.\<close>

definition nan_last :: "'a option \<Rightarrow> bool \<times> 'a option" where
  "nan_last v = (v = None, v)"

text \<open>\<^verbatim>\<open>d.get(year, d[max(d)])\<close> on the dictionary from the years of a capacity table.\<close>

definition by_year_or_last :: "(capacity_row \<Rightarrow> rat) \<Rightarrow> capacity_row list \<Rightarrow> int \<Rightarrow> rat" where
  "by_year_or_last field table y =
     (case filter (\<lambda>row. cap_year row = y) table of
        row # _ \<Rightarrow> field row
      | [] \<Rightarrow> field (last table))"

text \<open>The key of the final sort (line 830).\<close>

definition event_order_key :: "event \<Rightarrow> int \<times> string \<times> string" where
  "event_order_key item = (ev_year item, ev_date item, ev_name item)"

text \<open>Year and date alone: the time of an event.\<close>

definition event_date_key :: "event \<Rightarrow> int \<times> string" where
  "event_date_key item = (ev_year item, ev_date item)"

definition in_years :: "int \<Rightarrow> int \<Rightarrow> int option \<Rightarrow> bool" where
  "in_years start_year end_year v = (case v of None \<Rightarrow> False | Some y \<Rightarrow> start_year \<le> y \<and> y \<le> end_year)"

definition str_or_empty :: "string option \<Rightarrow> string" where
  "str_or_empty v = (case v of None \<Rightarrow> [] | Some s \<Rightarrow> s)"

definition build_historical_events ::
  "fossil_build_row list \<Rightarrow> plant_row list \<Rightarrow> int \<Rightarrow> int \<Rightarrow> event list" where
  "build_historical_events fossil_builds plants start_year end_year =
     (let builds = sort_key (\<lambda>b. (fb_commission_year b, nan_last (fb_site b), fb_name b))
                     (filter (\<lambda>b. in_years start_year end_year (fb_commission_year b)) fossil_builds);
          running_totals = compute_capacity_by_year plants (start_year - 1) end_year;
          build_events = map (\<lambda>row.
              let y = the (fb_commission_year row);
                  fossil_now = by_year_or_last fossil_mw running_totals y;
                  m = str_or_empty (fb_municipality row);
                  site_label = or_else m (case fb_site row of None \<Rightarrow> fb_name row | Some s \<Rightarrow> s)
              in \<lparr> ev_date = str_int y @ ''-07-01'', ev_year = y, ev_site = site_label,
                   ev_name = fb_name row, ev_event_type = ''fossil_build'', ev_municipality = m,
                   ev_payload = Historical_fossil_build
                     (case fb_type row of None \<Rightarrow> ''fossil'' | Some t \<Rightarrow> t)
                     (py_round (fb_capacity_mw row) 1) (py_round fossil_now 1) \<rparr>) builds;
          closures = sort_key (\<lambda>p. (row_closure_year p, nan_last (row_commission_year p), row_name p))
                       (filter (\<lambda>p. row_fuel_bucket p \<in> FOSSIL_FUELS \<and>
                                     in_years start_year end_year (row_closure_year p)) plants);
          closure_events = map (\<lambda>row.
              let y = the (row_closure_year row);
                  fossil_now = by_year_or_last fossil_mw running_totals y;
                  m = str_or_empty (row_municipality row);
                  site_label = or_else m (row_name row)
              in \<lparr> ev_date = str_int y @ ''-11-01'', ev_year = y, ev_site = site_label,
                   ev_name = row_name row, ev_event_type = ''fossil_closure'', ev_municipality = m,
                   ev_payload = Historical_fossil_closure (row_fuel_bucket row)
                     (py_round (row_capacity_mw row) 1) (py_round fossil_now 1) \<rparr>) closures;
          nuclear_closures =
            sort_key (\<lambda>p. (row_closure_year p, nan_last (row_commission_year p), row_name p))
              (filter (\<lambda>p. row_fuel_bucket p = ''nuclear'' \<and>
                            in_years start_year end_year (row_closure_year p)) plants);
          nuclear_closure_events = map (\<lambda>row.
              let y = the (row_closure_year row);
                  nuclear_before = by_year_or_last nuclear_mw running_totals y;
                  nuclear_after = max (nuclear_before - row_capacity_mw row) 0;
                  m = str_or_empty (row_municipality row);
                  site_label = or_else m (row_name row)
              in \<lparr> ev_date = str_int y @ ''-11-15'', ev_year = y, ev_site = site_label,
                   ev_name = row_name row, ev_event_type = ''nuclear_closure'', ev_municipality = m,
                   ev_payload = Historical_nuclear_closure
                     (py_round (row_capacity_mw row) 1) (py_round nuclear_after 1) \<rparr>) nuclear_closures
      in sort_key event_order_key (build_events @ closure_events @ nuclear_closure_events))"

section \<open>Example tables for the emissions projector\<close>

text \<open>
  A small generation series (1989, 1990, 1998, 1999) with capacity tables for the same years,
  used to run the projector on concrete numbers. In \<open>ex_cf_capacity_large\<close> the scenario has
  built 50000 MW of extra nuclear capacity by 1990, in \<open>ex_cf_capacity\<close> 10000 MW.
\<close>

definition ex_cells :: "rat \<Rightarrow> rat \<Rightarrow> rat \<Rightarrow> rat \<Rightarrow> rat \<Rightarrow> rat \<Rightarrow> column \<Rightarrow> rat option" where
  "ex_cells coal gas oil nuclear hydro wind c =
     (if c = Coal then Some coal else if c = Gas then Some gas else if c = Oil then Some oil
      else if c = Nuclear then Some nuclear else if c = Hydro then Some hydro
      else if c = Wind then Some wind else None)"

definition ex_generation :: "generation_row list" where
  "ex_generation =
     [\<lparr> Year = 1989, cells = ex_cells 200 50 10 100 20 0 \<rparr>,
      \<lparr> Year = 1990, cells = ex_cells 200 50 10 100 20 0 \<rparr>,
      \<lparr> Year = 1998, cells = ex_cells 180 60 5 110 20 5 \<rparr>,
      \<lparr> Year = 1999, cells = ex_cells 170 70 5 115 21 (19 / 2) \<rparr>]"

definition ex_capacity_row :: "int \<Rightarrow> rat \<Rightarrow> capacity_row" where
  "ex_capacity_row y nuclear =
     \<lparr> cap_year = y, nuclear_mw = nuclear, fossil_mw = 60000, other_mw = 5000,
       total_mw = nuclear + 60000 + 5000 \<rparr>"

definition ex_actual_capacity :: "capacity_row list" where
  "ex_actual_capacity =
     [ex_capacity_row 1989 20000, ex_capacity_row 1990 20000,
      ex_capacity_row 1998 20000, ex_capacity_row 1999 20000]"

definition ex_cf_capacity :: "capacity_row list" where
  "ex_cf_capacity =
     [ex_capacity_row 1989 20000, ex_capacity_row 1990 30000,
      ex_capacity_row 1998 30000, ex_capacity_row 1999 30000]"

definition ex_cf_capacity_large :: "capacity_row list" where
  "ex_cf_capacity_large =
     [ex_capacity_row 1989 20000, ex_capacity_row 1990 70000,
      ex_capacity_row 1998 70000, ex_capacity_row 1999 70000]"

definition ex_breakdown_row :: "int \<Rightarrow> breakdown_row" where
  "ex_breakdown_row y =
     \<lparr> bd_year = y, fossil_hard_coal_mw = 30000, fossil_lignite_mw = 20000,
       fossil_natural_gas_mw = 8000, fossil_oil_mw = 2000 \<rparr>"

definition ex_breakdown :: "breakdown_row list" where
  "ex_breakdown = map ex_breakdown_row [1989, 1990, 1998, 1999]"

text \<open>A one-row series whose three energy groups are 0.0625 TWh each.\<close>

definition ex_generation_sixteenths :: "generation_row list" where
  "ex_generation_sixteenths =
     [\<lparr> Year = 1989,
        cells = (\<lambda>c. if c = Coal \<or> c = Nuclear \<or> c = Hydro then Some (1 / 16) else None) \<rparr>]"

text \<open>What the projector returns on the example tables.\<close>

definition ex_historical :: "emissions_record list" where
  "ex_historical =
     [\<lparr> year = 1989, fossil_twh = 260, nuclear_twh = 100, renewables_twh = 20, total_twh = 380,
        co2_mt = 2213 / 10, clean_twh = 120 \<rparr>,
      \<lparr> year = 1990, fossil_twh = 260, nuclear_twh = 100, renewables_twh = 20, total_twh = 380,
        co2_mt = 2213 / 10, clean_twh = 120 \<rparr>,
      \<lparr> year = 1998, fossil_twh = 245, nuclear_twh = 110, renewables_twh = 25, total_twh = 380,
        co2_mt = 203, clean_twh = 135 \<rparr>,
      \<lparr> year = 1999, fossil_twh = 245, nuclear_twh = 115, renewables_twh = 61 / 2,
        total_twh = 781 / 2, co2_mt = 3961 / 20, clean_twh = 291 / 2 \<rparr>]"

definition ex_out :: emissions_result where
  "ex_out =
     \<lparr> historical = ex_historical,
       counterfactual =
         [ex_historical ! 0,
          \<lparr> year = 1990, fossil_twh = 4529 / 25, nuclear_twh = 4471 / 25, renewables_twh = 20,
            total_twh = 380, co2_mt = 15529 / 100, clean_twh = 4971 / 25 \<rparr>,
          \<lparr> year = 1998, fossil_twh = 4404 / 25, nuclear_twh = 4471 / 25, renewables_twh = 25,
            total_twh = 380, co2_mt = 3674 / 25, clean_twh = 5096 / 25 \<rparr>,
          \<lparr> year = 1999, fossil_twh = 9333 / 50, nuclear_twh = 4471 / 25, renewables_twh = 25,
            total_twh = 781 / 2, co2_mt = 759 / 5, clean_twh = 5096 / 25 \<rparr>] \<rparr>"

definition ex_out_large :: emissions_result where
  "ex_out_large =
     \<lparr> historical = ex_historical,
       counterfactual =
         [ex_historical ! 0,
          \<lparr> year = 1990, fossil_twh = 0, nuclear_twh = 2471 / 5, renewables_twh = 20,
            total_twh = 2571 / 5, co2_mt = 247 / 50, clean_twh = 2571 / 5 \<rparr>,
          \<lparr> year = 1998, fossil_twh = 0, nuclear_twh = 2471 / 5, renewables_twh = 25,
            total_twh = 2596 / 5, co2_mt = 247 / 50, clean_twh = 2596 / 5 \<rparr>,
          \<lparr> year = 1999, fossil_twh = 0, nuclear_twh = 2471 / 5, renewables_twh = 25,
            total_twh = 2596 / 5, co2_mt = 247 / 50, clean_twh = 2596 / 5 \<rparr>] \<rparr>"

definition ex_out_sixteenths :: emissions_result where
  "ex_out_sixteenths =
     \<lparr> historical =
         [\<lparr> year = 1989, fossil_twh = 6 / 100, nuclear_twh = 6 / 100, renewables_twh = 6 / 100,
            total_twh = 19 / 100, co2_mt = 6 / 100, clean_twh = 12 / 100 \<rparr>],
       counterfactual =
         [\<lparr> year = 1989, fossil_twh = 6 / 100, nuclear_twh = 6 / 100, renewables_twh = 6 / 100,
            total_twh = 19 / 100, co2_mt = 6 / 100, clean_twh = 12 / 100 \<rparr>] \<rparr>"

section \<open>Example plants\<close>

text \<open>The three plants of the selector scenario, as rows of the plant table and as records.\<close>

definition row_A :: plant_row where
  "row_A = \<lparr> Index = 0, row_name = ''A'', row_municipality = None, row_fuel_bucket = ''lignite'',
        row_technology = None, row_capacity_mw = 200, row_commission_year = Some 1980,
        row_closure_year = None \<rparr>"

definition row_B :: plant_row where
  "row_B = \<lparr> Index = 1, row_name = ''B'', row_municipality = None, row_fuel_bucket = ''natural_gas'',
        row_technology = None, row_capacity_mw = 150, row_commission_year = Some 1995,
        row_closure_year = None \<rparr>"

definition row_C :: plant_row where
  "row_C = \<lparr> Index = 2, row_name = ''C'', row_municipality = None, row_fuel_bucket = ''oil'',
        row_technology = None, row_capacity_mw = 50, row_commission_year = Some 1970,
        row_closure_year = Some 2000 \<rparr>"

definition plant_A :: PlantRecord where
  "plant_A = \<lparr> record_id = 0, name = ''A'', municipality = [], fuel_bucket = ''lignite'',
      technology = None, capacity_mw = 200, commission_year = Some 1980, closure_year = None,
      is_cogeneration = False \<rparr>"

definition plant_B :: PlantRecord where
  "plant_B = \<lparr> record_id = 1, name = ''B'', municipality = [], fuel_bucket = ''natural_gas'',
      technology = None, capacity_mw = 150, commission_year = Some 1995, closure_year = None,
      is_cogeneration = False \<rparr>"

definition plant_C :: PlantRecord where
  "plant_C = \<lparr> record_id = 2, name = ''C'', municipality = [], fuel_bucket = ''oil'',
      technology = None, capacity_mw = 50, commission_year = Some 1970, closure_year = Some 2000,
      is_cogeneration = False \<rparr>"

text \<open>
  A small fleet for the simulator: two lignite plants, a gas plant, a nuclear plant and a hydro
  plant, all running in 1989.
\<close>

definition ex_plant :: "int \<Rightarrow> string \<Rightarrow> string \<Rightarrow> string \<Rightarrow> rat \<Rightarrow> int \<Rightarrow> plant_row" where
  "ex_plant i nm m f c cy =
     \<lparr> Index = i, row_name = nm, row_municipality = Some m, row_fuel_bucket = f,
       row_technology = None, row_capacity_mw = c, row_commission_year = Some cy,
       row_closure_year = None \<rparr>"

definition ex_plants :: "plant_row list" where
  "ex_plants =
     [ex_plant 0 ''Zeta'' ''Zstadt'' ''lignite'' 300 1960,
      ex_plant 1 ''Alpha'' ''Astadt'' ''lignite'' 400 1965,
      ex_plant 2 ''Gas One'' ''Gdorf'' ''natural_gas'' 2000 1980,
      ex_plant 3 ''KKW Nord'' ''Nordheim'' ''nuclear'' 1300 1975,
      ex_plant 4 ''Wasser'' ''Wtal'' ''hydro'' 100 1950]"

text \<open>The actual capacity of 1990, as the ledger computes it from the fleet.\<close>

definition ex_actual_1990 :: "capacity_row list" where
  "ex_actual_1990 =
     [\<lparr> cap_year = 1990, nuclear_mw = 1300, fossil_mw = 2700, other_mw = 100, total_mw = 4100 \<rparr>]"

text \<open>
  The actual capacity of 1989 when the fossil construction table has a 500 MW plant
  commissioned in 1989, which \<^verbatim>\<open>apply_fossil_builds_to_capacity\<close> adds to the ledger's 2700 MW.
\<close>

definition ex_actual_1989 :: "capacity_row list" where
  "ex_actual_1989 =
     [\<lparr> cap_year = 1989, nuclear_mw = 1300, fossil_mw = 3200, other_mw = 100, total_mw = 4600 \<rparr>]"

text \<open>What the simulator returns for the year 1990 alone, and for the year 1989 alone.\<close>

definition ex_events_1990 :: "event list" where
  "ex_events_1990 =
     [\<lparr> ev_date = ''1990-04-01'', ev_year = 1990, ev_site = ''Zstadt'', ev_name = ''Zeta (Zstadt)'',
        ev_event_type = ''fossil_closure'', ev_municipality = ''Zstadt'',
        ev_payload = Counterfactual_closure ''lignite'' 300 300 0 2400 False \<rparr>,
      \<lparr> ev_date = ''1990-04-01'', ev_year = 1990, ev_site = ''Astadt'', ev_name = ''Alpha (Astadt)'',
        ev_event_type = ''fossil_closure'', ev_municipality = ''Astadt'',
        ev_payload = Counterfactual_closure ''lignite'' 400 1110 710 1290 False \<rparr>,
      \<lparr> ev_date = ''1990-04-01'', ev_year = 1990, ev_site = ''Nordheim'',
        ev_name = ''Nordheim Unit 2'', ev_event_type = ''nuclear_build'',
        ev_municipality = ''Nordheim'',
        ev_payload = Nuclear_build 1410 2710 1290 4100 [''Zeta (Zstadt)'', ''Alpha (Astadt)'']
          1410 710 (898 / 25) \<rparr>,
      \<lparr> ev_date = ''1990-10-01'', ev_year = 1990, ev_site = ''Residual fossil fleet'',
        ev_name = ''Residual fossil fleet'', ev_event_type = ''fossil_closure'',
        ev_municipality = [],
        ev_payload = Counterfactual_closure ''fossil'' 0 1290 1290 0 True \<rparr>,
      \<lparr> ev_date = ''1990-10-01'', ev_year = 1990, ev_site = ''Nordheim'',
        ev_name = ''Nordheim Unit 3'', ev_event_type = ''nuclear_build'',
        ev_municipality = ''Nordheim'',
        ev_payload = Nuclear_build 1410 4120 0 4220 [''Residual fossil fleet''] 1290 1290
          (3697 / 100) \<rparr>]"

definition ex_row_1990 :: timeseries_row where
  "ex_row_1990 =
     \<lparr> ts_year = 1990, ts_nuclear_mw = 4120, ts_fossil_mw = 0, ts_other_mw = 100,
       ts_fossil_hard_coal_mw = 0, ts_fossil_lignite_mw = 0, ts_fossil_natural_gas_mw = 710,
       ts_fossil_oil_mw = 0, ts_total_mw = 4220 \<rparr>"

definition ex_row_1989 :: timeseries_row where
  "ex_row_1989 =
     \<lparr> ts_year = 1989, ts_nuclear_mw = 1300, ts_fossil_mw = 2700, ts_other_mw = 100,
       ts_fossil_hard_coal_mw = 0, ts_fossil_lignite_mw = 700, ts_fossil_natural_gas_mw = 2000,
       ts_fossil_oil_mw = 0, ts_total_mw = 4100 \<rparr>"

text \<open>The environment and the starting state of that run, for the year 1990.\<close>

definition ex_env :: sim_env where
  "ex_env =
     \<lparr> actual_capacity = ex_actual_1990,
       primary_pool = fst (build_fossil_candidate_pools ex_plants),
       fallback_pool = snd (build_fossil_candidate_pools ex_plants),
       plant_municipality_map = plant_municipality_map_of ex_plants,
       planned_konvois = [],
       existing_nuclear_sites = [''KKW Nord''],
       baseline_existing_sites = [''Nordheim''] \<rparr>"

definition ex_state :: sim_state where
  "ex_state =
     \<lparr> running_nuclear = 1300,
       running_fossil = 2700,
       closed_record_ids = {},
       running_fossil_breakdown =
         [(''hard_coal'', 0), (''lignite'', 700), (''natural_gas'', 2000), (''oil'', 0)],
       site_unit_counter = [''Nordheim'' \<mapsto> 1],
       post_planned_allocation_index = 0,
       nuclear_build_count = 0,
       events = [],
       timeseries_rows = [] \<rparr>"

section \<open>Properties of the emissions projector\<close>

subsection \<open>Rounding\<close>

lemma round_half_even_lower: "\<lfloor>x\<rfloor> \<le> round_half_even x"
  by (simp add: round_half_even_def Let_def)

lemma round_half_even_upper: "round_half_even x \<le> \<lfloor>x\<rfloor> + 1"
  by (simp add: round_half_even_def Let_def)

lemma round_half_even_mono:
  assumes "x \<le> y"
  shows "round_half_even x \<le> round_half_even y"
proof (cases "\<lfloor>x\<rfloor> < \<lfloor>y\<rfloor>")
  case True
  then show ?thesis
    using round_half_even_lower [of y] round_half_even_upper [of x] by linarith
next
  case False
  moreover have "\<lfloor>x\<rfloor> \<le> \<lfloor>y\<rfloor>"
    using assms by (rule floor_mono)
  ultimately have "\<lfloor>x\<rfloor> = \<lfloor>y\<rfloor>"
    by linarith
  then show ?thesis
    using assms by (auto simp: round_half_even_def Let_def)
qed

lemma round_half_even_near:
  "\<bar>of_int (round_half_even x) - x\<bar> \<le> 1 / 2"
proof -
  have "of_int \<lfloor>x\<rfloor> \<le> x" "x < of_int \<lfloor>x\<rfloor> + 1"
    by linarith+
  then show ?thesis
    by (auto simp: round_half_even_def Let_def abs_le_iff)
qed

lemma py_round_mono:
  assumes "x \<le> y"
  shows "py_round x n \<le> py_round y n"
proof -
  have "x * 10 ^ n \<le> y * 10 ^ n"
    using assms by (simp add: mult_right_mono)
  then have "round_half_even (x * 10 ^ n) \<le> round_half_even (y * 10 ^ n)"
    by (rule round_half_even_mono)
  then show ?thesis
    by (simp add: py_round_def divide_right_mono)
qed

lemma py_round_max: "py_round (max a b) n = max (py_round a n) (py_round b n)"
proof (cases "a \<le> b")
  case True
  then show ?thesis
    using py_round_mono [of a b n] by (simp add: max_def)
next
  case False
  then have "b \<le> a"
    by simp
  then show ?thesis
    using py_round_mono [of b a n] by (simp add: max_def)
qed

lemma py_round_2_near: "\<bar>py_round x 2 - x\<bar> \<le> 1 / 200"
proof -
  have "\<bar>of_int (round_half_even (x * 100)) - x * 100\<bar> \<le> 1 / 2"
    by (rule round_half_even_near)
  then show ?thesis
    by (simp add: py_round_def abs_le_iff field_simps)
qed


subsection \<open>One year\<close>

lemma split_fossil_kept:
  assumes "0 < fossil_hard_coal_mw cb + fossil_lignite_mw cb + fossil_natural_gas_mw cb + fossil_oil_mw cb"
    and "0 \<le> rf"
  shows "snd (split_fossil data ab cb rf) = rf"
  using assms by (auto simp: split_fossil_def Let_def)

lemma loc_Inr_mem: "loc key err rows y = Inr r \<Longrightarrow> r \<in> set rows \<and> key r = y"
proof -
  assume a: "loc key err rows y = Inr r"
  then have "filter (\<lambda>r. key r = y) rows = [r]"
    by (auto simp: loc_def split: list.splits)
  then have "r \<in> set (filter (\<lambda>r. key r = y) rows)"
    by simp
  then show ?thesis
    by simp
qed

lemma emissions_year_actual:
  assumes "emissions_year ac cc ab cb bn fm ft prev data = Inr (ra, rc, cfn)"
  shows "ra = actual_record data"
  using assms by (auto simp: emissions_year_def Let_def split: sum.splits prod.splits)

lemma emissions_year_baseline:
  assumes "emissions_year ac cc ab cb bn fm ft prev data = Inr (ra, rc, cfn)"
    and "Year data \<le> START_YEAR"
  shows "rc = ra"
  using assms by (auto simp: emissions_year_def Let_def split: sum.splits prod.splits)

lemma emissions_year_year:
  assumes "emissions_year ac cc ab cb bn fm ft prev data = Inr (ra, rc, cfn)"
  shows "year rc = Year data" and "year ra = Year data"
  using assms by (auto simp: emissions_year_def actual_record_def Let_def split: sum.splits prod.splits)

lemma cf_nuclear_twh_of_lower:
  "prev \<le> cf_nuclear_twh_of bn prev y a c" "bn \<le> cf_nuclear_twh_of bn prev y a c"
proof -
  have "0 \<le> max (nuclear_mw c - nuclear_mw a) 0 * HOURS_PER_YEAR * NUCLEAR_CAPACITY_FACTOR / 1000000"
    by (simp add: HOURS_PER_YEAR_def NUCLEAR_CAPACITY_FACTOR_def)
  then show "bn \<le> cf_nuclear_twh_of bn prev y a c"
    by (simp add: cf_nuclear_twh_of_def Let_def max_def)
  show "prev \<le> cf_nuclear_twh_of bn prev y a c"
    by (simp add: cf_nuclear_twh_of_def Let_def)
qed

lemma emissions_year_nuclear:
  assumes "emissions_year ac cc ab cb bn fm ft prev data = Inr (ra, rc, cfn)"
  shows "prev \<le> cfn" and "bn \<le> cfn"
    and "START_YEAR < Year data \<Longrightarrow> nuclear_twh rc = py_round cfn 2"
  using assms
  by (auto simp: emissions_year_def cf_nuclear_twh_of_lower Let_def split: sum.splits prod.splits)

lemma emissions_year_total:
  assumes "emissions_year ac cc ab cb bn fm ft prev data = Inr (ra, rc, cfn)"
    and "START_YEAR < Year data"
  shows "total_twh rc = max (total_twh ra) (clean_twh rc)"
proof -
  have m: "p + max (t - p) 0 = max t p" for t p :: rat
    by (simp add: max_def)
  show ?thesis
    using assms
    by (auto simp: emissions_year_def actual_record_def Let_def m py_round_max
        split: sum.splits prod.splits)
qed

lemma emissions_year_renewables:
  assumes "emissions_year ac cc ab cb bn fm ft prev data = Inr (ra, rc, cfn)"
  shows "RENEWABLE_FREEZE_YEAR \<le> Year data \<Longrightarrow> renewables_twh rc = py_round ft 2"
    and "Year data < RENEWABLE_FREEZE_YEAR \<Longrightarrow> renewables_twh rc = renewables_twh ra"
  using assms
  by (auto simp: emissions_year_def actual_record_def cf_renewables_twh_of_def Let_def
      START_YEAR_def RENEWABLE_FREEZE_YEAR_def split: sum.splits prod.splits)


lemma py_round_sum3_near:
  "\<bar>py_round (a + b + c) 2 - (py_round a 2 + py_round b 2 + py_round c 2)\<bar> \<le> 1 / 50"
proof -
  have near: "\<bar>py_round x 2 - x\<bar> \<le> 1 / 200" for x
    by (rule py_round_2_near)
  from near [of a] near [of b] near [of c] near [of "a + b + c"] show ?thesis
    by linarith
qed

lemma actual_record_balance:
  "\<bar>total_twh (actual_record d)
     - (fossil_twh (actual_record d) + nuclear_twh (actual_record d) + renewables_twh (actual_record d))\<bar>
   \<le> 1 / 50"
proof -
  obtain f n r where
    "total_twh (actual_record d) = py_round (f + n + r) 2" "fossil_twh (actual_record d) = py_round f 2"
    "nuclear_twh (actual_record d) = py_round n 2" "renewables_twh (actual_record d) = py_round r 2"
    by (simp add: actual_record_def Let_def)
  then show ?thesis
    using py_round_sum3_near [of f n r] by simp
qed

lemma emissions_year_balance:
  assumes run: "emissions_year ac cc ab cb bn fm ft prev data = Inr (ra, rc, cfn)"
    and after: "START_YEAR < Year data"
    and cap: "\<forall>b \<in> set cb. bd_year b = Year data \<longrightarrow>
        0 < fossil_hard_coal_mw b + fossil_lignite_mw b + fossil_natural_gas_mw b + fossil_oil_mw b"
  shows "\<bar>total_twh rc - (fossil_twh rc + nuclear_twh rc + renewables_twh rc)\<bar> \<le> 1 / 50"
proof -
  from run obtain bc where bc: "loc bd_year TypeError cb (Year data) = Inr bc"
    by (auto simp: emissions_year_def Let_def split: sum.splits)
  then have "0 < fossil_hard_coal_mw bc + fossil_lignite_mw bc + fossil_natural_gas_mw bc + fossil_oil_mw bc"
    using cap loc_Inr_mem [OF bc] by blast
  then have "snd (split_fossil data ba bc (max x 0)) = max x 0" for ba x
    by (rule split_fossil_kept) simp
  then have kept: "split_fossil data ba bc (max x 0) = (s, f) \<Longrightarrow> f = max x 0" for ba x s f
    by (metis snd_conv)
  from run after bc obtain n r f where
    "total_twh rc = py_round (n + r + 0 + f) 2" "fossil_twh rc = py_round f 2"
    "nuclear_twh rc = py_round n 2" "renewables_twh rc = py_round r 2"
    by (auto simp: emissions_year_def Let_def split: sum.splits prod.splits dest!: kept)
  then show ?thesis
    using py_round_sum3_near [of f n r] by (simp add: add.commute add.left_commute)
qed

subsection \<open>The loop over the generation rows\<close>

lemma emissions_loop_pointwise:
  assumes "emissions_loop body prev gen = Inr out"
    and "\<And>p d ra rc c. d \<in> set gen \<Longrightarrow> body p d = Inr (ra, rc, c) \<Longrightarrow> R d ra rc"
  shows "length (historical out) = length gen \<and> length (counterfactual out) = length gen \<and>
    (\<forall>k < length gen. R (gen ! k) (historical out ! k) (counterfactual out ! k))"
  using assms
proof (induction gen arbitrary: prev out)
  case Nil
  then show ?case
    by auto
next
  case (Cons d rest)
  from Cons.prems(1) obtain ra rc c out' where
    head: "body prev d = Inr (ra, rc, c)" and
    tail: "emissions_loop body c rest = Inr out'" and
    out: "out = \<lparr> historical = ra # historical out', counterfactual = rc # counterfactual out' \<rparr>"
    by (auto split: sum.splits prod.splits)
  have "R d ra rc"
    using Cons.prems(2) head by simp
  moreover have "length (historical out') = length rest \<and> length (counterfactual out') = length rest \<and>
    (\<forall>k < length rest. R (rest ! k) (historical out' ! k) (counterfactual out' ! k))"
    using Cons.IH [OF tail] Cons.prems(2) by simp
  ultimately show ?case
    by (auto simp: out nth_Cons split: nat.splits)
qed

lemma compute_emissions_loop:
  assumes "compute_emissions_timeseries gen ac cc ab cb = Inr out"
  obtains bn fm ft where
    "emissions_loop (emissions_year ac cc ab cb bn fm ft) bn gen = Inr out"
    "bn = base_value (case filter (\<lambda>r. Year r = START_YEAR) gen of [] \<Rightarrow> hd gen | r # _ \<Rightarrow> r) Nuclear"
proof (cases gen)
  case Nil
  with assms show ?thesis
    by (simp add: compute_emissions_timeseries_def)
next
  case (Cons first_row rest)
  define baseline_row where
    "baseline_row = (case filter (\<lambda>r. Year r = START_YEAR) gen of [] \<Rightarrow> hd gen | r # _ \<Rightarrow> r)"
  define fm where
    "fm = base_value (case filter (\<lambda>r. Year r = RENEWABLE_FREEZE_YEAR) gen of
            [] \<Rightarrow> baseline_row | r # _ \<Rightarrow> r)"
  define ft where "ft = sum_list (map fm RENEWABLE_GENERATION_COLUMNS)"
  have "emissions_loop (emissions_year ac cc ab cb (base_value baseline_row Nuclear) fm ft)
          (base_value baseline_row Nuclear) gen = Inr out"
    using assms
    by (simp only: compute_emissions_timeseries_def baseline_row_def fm_def ft_def Let_def Cons
        list.case list.sel)
  then show ?thesis
    using that baseline_row_def by blast
qed

lemma compute_emissions_pointwise:
  assumes run: "compute_emissions_timeseries gen ac cc ab cb = Inr out"
  shows "\<exists>bn fm ft.
    length (historical out) = length gen \<and> length (counterfactual out) = length gen \<and>
    (\<forall>k < length gen. \<exists>prev cfn. emissions_year ac cc ab cb bn fm ft prev (gen ! k)
         = Inr (historical out ! k, counterfactual out ! k, cfn))"
proof -
  from run obtain bn fm ft where
    loop: "emissions_loop (emissions_year ac cc ab cb bn fm ft) bn gen = Inr out"
    by (rule compute_emissions_loop)
  have "length (historical out) = length gen \<and> length (counterfactual out) = length gen \<and>
    (\<forall>k < length gen. \<exists>prev cfn. emissions_year ac cc ab cb bn fm ft prev (gen ! k)
         = Inr (historical out ! k, counterfactual out ! k, cfn))"
    by (rule emissions_loop_pointwise [OF loop]) blast
  then show ?thesis
    by blast
qed

lemma emissions_loop_nuclear_lower:
  assumes "emissions_loop (emissions_year ac cc ab cb bn fm ft) prev gen = Inr out"
    and "lo \<le> prev"
  shows "\<forall>k < length gen. START_YEAR < Year (gen ! k) \<longrightarrow>
           py_round lo 2 \<le> nuclear_twh (counterfactual out ! k)"
  using assms
proof (induction gen arbitrary: prev out)
  case Nil
  then show ?case
    by simp
next
  case (Cons d rest)
  from Cons.prems(1) obtain ra rc c out' where
    head: "emissions_year ac cc ab cb bn fm ft prev d = Inr (ra, rc, c)" and
    tail: "emissions_loop (emissions_year ac cc ab cb bn fm ft) c rest = Inr out'" and
    out: "out = \<lparr> historical = ra # historical out', counterfactual = rc # counterfactual out' \<rparr>"
    by (auto split: sum.splits prod.splits)
  have "lo \<le> c"
    using emissions_year_nuclear(1) [OF head] Cons.prems(2) by simp
  then have h: "START_YEAR < Year d \<Longrightarrow> py_round lo 2 \<le> nuclear_twh rc"
    using emissions_year_nuclear(3) [OF head] by (simp add: py_round_mono)
  have "\<forall>k < length rest. START_YEAR < Year (rest ! k) \<longrightarrow>
           py_round lo 2 \<le> nuclear_twh (counterfactual out' ! k)"
    using Cons.IH [OF tail \<open>lo \<le> c\<close>] .
  with h show ?case
    by (auto simp: out nth_Cons split: nat.splits)
qed

lemma emissions_loop_nuclear_chain:
  assumes "emissions_loop (emissions_year ac cc ab cb bn fm ft) prev gen = Inr out"
  shows "\<forall>j < length gen. \<forall>i < j. START_YEAR < Year (gen ! i) \<and> START_YEAR < Year (gen ! j) \<longrightarrow>
           nuclear_twh (counterfactual out ! i) \<le> nuclear_twh (counterfactual out ! j)"
  using assms
proof (induction gen arbitrary: prev out)
  case Nil
  then show ?case
    by simp
next
  case (Cons d rest)
  from Cons.prems(1) obtain ra rc c out' where
    head: "emissions_year ac cc ab cb bn fm ft prev d = Inr (ra, rc, c)" and
    tail: "emissions_loop (emissions_year ac cc ab cb bn fm ft) c rest = Inr out'" and
    out: "out = \<lparr> historical = ra # historical out', counterfactual = rc # counterfactual out' \<rparr>"
    by (auto split: sum.splits prod.splits)
  have first: "\<forall>k < length rest. START_YEAR < Year (rest ! k) \<longrightarrow>
           py_round c 2 \<le> nuclear_twh (counterfactual out' ! k)"
    by (rule emissions_loop_nuclear_lower [OF tail]) simp
  have later: "\<forall>j < length rest. \<forall>i < j. START_YEAR < Year (rest ! i) \<and> START_YEAR < Year (rest ! j) \<longrightarrow>
           nuclear_twh (counterfactual out' ! i) \<le> nuclear_twh (counterfactual out' ! j)"
    by (rule Cons.IH [OF tail])
  show ?case
  proof (intro allI impI)
    fix j i
    assume j: "j < length (d # rest)" and i: "i < j"
      and y: "START_YEAR < Year ((d # rest) ! i) \<and> START_YEAR < Year ((d # rest) ! j)"
    from i obtain j' where j': "j = Suc j'"
      by (cases j) auto
    show "nuclear_twh (counterfactual out ! i) \<le> nuclear_twh (counterfactual out ! j)"
    proof (cases i)
      case 0
      then show ?thesis
        using first j y j' emissions_year_nuclear(3) [OF head] by (simp add: out)
    next
      case (Suc i')
      then show ?thesis
        using later j i y j' by (simp add: out)
    qed
  qed
qed

lemma sorted_wrt_less_unique_filter:
  assumes "sorted_wrt (<) (map f xs)" and "k < length xs" and "f (xs ! k) = (v::int)"
  shows "filter (\<lambda>r. f r = v) xs = [xs ! k]"
  using assms
proof (induction xs arbitrary: k)
  case Nil
  then show ?case
    by simp
next
  case (Cons x xs)
  show ?case
  proof (cases k)
    case 0
    then have "\<forall>y \<in> set xs. f x < f y"
      using Cons.prems(1) by simp
    then have "filter (\<lambda>r. f r = v) xs = []"
      using Cons.prems(3) 0 by (auto simp: filter_empty_conv)
    then show ?thesis
      using Cons.prems(3) 0 by simp
  next
    case (Suc k')
    then have "xs ! k' \<in> set xs"
      using Cons.prems(2) by simp
    then have "f x < v"
      using Cons.prems(1,3) Suc by auto
    then show ?thesis
      using Cons.IH [of k'] Cons.prems Suc by simp
  qed
qed

subsection \<open>The example tables, run\<close>

lemma ex_run:
  "compute_emissions_timeseries ex_generation ex_actual_capacity ex_cf_capacity ex_breakdown ex_breakdown
     = Inr ex_out"
  by code_simp

lemma ex_run_large:
  "compute_emissions_timeseries ex_generation ex_actual_capacity ex_cf_capacity_large ex_breakdown
     ex_breakdown = Inr ex_out_large"
  by code_simp

lemma ex_run_sixteenths:
  "compute_emissions_timeseries ex_generation_sixteenths ex_actual_capacity ex_cf_capacity ex_breakdown
     ex_breakdown = Inr ex_out_sixteenths"
  by code_simp

subsection \<open>Totals of the two series\<close>

text \<open>
  Claim C1 says that after the baseline year the counterfactual \<open>total_twh\<close> equals the
  historical \<open>total_twh\<close> of the same year within 0.01. With 50000 MW of extra nuclear
  capacity in 1990 the counterfactual nuclear and renewable output (514.2 TWh) is above the
  historical total (380 TWh); the required fossil energy is floored at zero and the counterfactual
  total stays at 514.2 TWh.
\<close>

theorem cf_total_differs_from_actual_total:
  "compute_emissions_timeseries ex_generation ex_actual_capacity ex_cf_capacity_large ex_breakdown
     ex_breakdown = Inr ex_out_large \<and>
   year (counterfactual ex_out_large ! 1) = 1990 \<and> year (historical ex_out_large ! 1) = 1990 \<and>
   START_YEAR < 1990 \<and>
   total_twh (counterfactual ex_out_large ! 1) = 2571 / 5 \<and>
   total_twh (historical ex_out_large ! 1) = 380 \<and>
   \<not> \<bar>total_twh (counterfactual ex_out_large ! 1) - total_twh (historical ex_out_large ! 1)\<bar> \<le> 1 / 100"
  using ex_run_large by (simp add: ex_out_large_def ex_historical_def START_YEAR_def)

text \<open>
  Claim C1, amended: for every year after the baseline year the counterfactual \<open>total_twh\<close>
  is the larger of the historical \<open>total_twh\<close> of that year and the counterfactual
  \<open>clean_twh\<close>. It equals the historical total whenever the counterfactual nuclear and
  renewable output does not exceed it, and is never below it.
\<close>

theorem cf_total_is_max_of_actual_total_and_clean:
  assumes "compute_emissions_timeseries gen ac cc ab cb = Inr out"
    and "k < length (counterfactual out)"
    and "START_YEAR < year (counterfactual out ! k)"
  shows "year (historical out ! k) = year (counterfactual out ! k) \<and>
    total_twh (counterfactual out ! k)
      = max (total_twh (historical out ! k)) (clean_twh (counterfactual out ! k))"
proof -
  from compute_emissions_pointwise [OF assms(1)] obtain bn fm ft where
    len: "length (counterfactual out) = length gen" "length (historical out) = length gen" and
    step: "\<And>k. k < length gen \<Longrightarrow>
       \<exists>prev cfn. emissions_year ac cc ab cb bn fm ft prev (gen ! k)
         = Inr (historical out ! k, counterfactual out ! k, cfn)"
    by blast
  from step [of k] assms(2) len obtain prev cfn where
    y: "emissions_year ac cc ab cb bn fm ft prev (gen ! k)
         = Inr (historical out ! k, counterfactual out ! k, cfn)"
    by auto
  have "START_YEAR < Year (gen ! k)"
    using assms(3) emissions_year_year(1) [OF y] by simp
  then show ?thesis
    using emissions_year_total [OF y] emissions_year_year [OF y] by simp
qed

theorem cf_total_is_max_of_actual_total_and_clean_witness:
  "compute_emissions_timeseries ex_generation ex_actual_capacity ex_cf_capacity ex_breakdown ex_breakdown
     = Inr ex_out \<and>
   1 < length (counterfactual ex_out) \<and>
   START_YEAR < year (counterfactual ex_out ! 1) \<and>
   year (historical ex_out ! 1) = year (counterfactual ex_out ! 1) \<and>
   total_twh (counterfactual ex_out ! 1)
     = max (total_twh (historical ex_out ! 1)) (clean_twh (counterfactual ex_out ! 1)) \<and>
   total_twh (counterfactual ex_out ! 1) = 380 \<and> total_twh (historical ex_out ! 1) = 380"
proof -
  have k: "1 < length (counterfactual ex_out)"
    by (simp add: ex_out_def)
  have y: "START_YEAR < year (counterfactual ex_out ! 1)"
    by (simp add: ex_out_def START_YEAR_def)
  have v: "total_twh (counterfactual ex_out ! 1) = 380 \<and> total_twh (historical ex_out ! 1) = 380"
    by (simp add: ex_out_def ex_historical_def)
  from cf_total_is_max_of_actual_total_and_clean [OF ex_run k y] ex_run k y v show ?thesis
    by blast
qed

subsection \<open>Total against the sum of the parts\<close>

text \<open>
  Claim C2 says that in every record the stored \<open>total_twh\<close> equals the sum of the stored
  \<open>fossil_twh\<close>, \<open>nuclear_twh\<close> and \<open>renewables_twh\<close>. Each field is rounded to two
  decimals on its own: with 0.0625 TWh in each of the three groups the parts are stored as 0.06
  each and the total, 0.1875, as 0.19.
\<close>

theorem stored_total_differs_from_sum_of_parts:
  "compute_emissions_timeseries ex_generation_sixteenths ex_actual_capacity ex_cf_capacity ex_breakdown
     ex_breakdown = Inr ex_out_sixteenths \<and>
   total_twh (historical ex_out_sixteenths ! 0) = 19 / 100 \<and>
   fossil_twh (historical ex_out_sixteenths ! 0) + nuclear_twh (historical ex_out_sixteenths ! 0)
     + renewables_twh (historical ex_out_sixteenths ! 0) = 18 / 100 \<and>
   total_twh (historical ex_out_sixteenths ! 0)
     \<noteq> fossil_twh (historical ex_out_sixteenths ! 0) + nuclear_twh (historical ex_out_sixteenths ! 0)
       + renewables_twh (historical ex_out_sixteenths ! 0)"
  using ex_run_sixteenths by (simp add: ex_out_sixteenths_def)

text \<open>
  Claim C2, amended: the stored \<open>total_twh\<close> differs from the sum of the stored
  \<open>fossil_twh\<close>, \<open>nuclear_twh\<close> and \<open>renewables_twh\<close> by at most 0.02, in every historical
  record and in every counterfactual record that is at or before the baseline year or whose year
  has a positive counterfactual fossil capacity in the breakdown table.
\<close>

theorem stored_total_near_sum_of_parts:
  assumes "compute_emissions_timeseries gen ac cc ab cb = Inr out"
  shows "(\<forall>k < length (historical out).
           \<bar>total_twh (historical out ! k) - (fossil_twh (historical out ! k)
              + nuclear_twh (historical out ! k) + renewables_twh (historical out ! k))\<bar> \<le> 1 / 50) \<and>
         (\<forall>k < length (counterfactual out).
           (year (counterfactual out ! k) \<le> START_YEAR \<or>
            (\<forall>b \<in> set cb. bd_year b = year (counterfactual out ! k) \<longrightarrow>
               0 < fossil_hard_coal_mw b + fossil_lignite_mw b + fossil_natural_gas_mw b + fossil_oil_mw b)) \<longrightarrow>
           \<bar>total_twh (counterfactual out ! k) - (fossil_twh (counterfactual out ! k)
              + nuclear_twh (counterfactual out ! k) + renewables_twh (counterfactual out ! k))\<bar> \<le> 1 / 50)"
proof -
  from compute_emissions_pointwise [OF assms(1)] obtain bn fm ft where
    len: "length (counterfactual out) = length gen" "length (historical out) = length gen" and
    step: "\<And>k. k < length gen \<Longrightarrow>
       \<exists>prev cfn. emissions_year ac cc ab cb bn fm ft prev (gen ! k)
         = Inr (historical out ! k, counterfactual out ! k, cfn)"
    by blast
  have hist: "\<bar>total_twh (historical out ! k) - (fossil_twh (historical out ! k)
              + nuclear_twh (historical out ! k) + renewables_twh (historical out ! k))\<bar> \<le> 1 / 50"
    if "k < length gen" for k
  proof -
    from step [OF that] obtain prev cfn where
      y: "emissions_year ac cc ab cb bn fm ft prev (gen ! k)
         = Inr (historical out ! k, counterfactual out ! k, cfn)"
      by auto
    show ?thesis
      unfolding emissions_year_actual [OF y] by (rule actual_record_balance)
  qed
  have cf: "\<bar>total_twh (counterfactual out ! k) - (fossil_twh (counterfactual out ! k)
              + nuclear_twh (counterfactual out ! k) + renewables_twh (counterfactual out ! k))\<bar> \<le> 1 / 50"
    if "k < length gen"
      and c: "year (counterfactual out ! k) \<le> START_YEAR \<or>
            (\<forall>b \<in> set cb. bd_year b = year (counterfactual out ! k) \<longrightarrow>
               0 < fossil_hard_coal_mw b + fossil_lignite_mw b + fossil_natural_gas_mw b + fossil_oil_mw b)"
    for k
  proof -
    from step [OF that(1)] obtain prev cfn where
      y: "emissions_year ac cc ab cb bn fm ft prev (gen ! k)
         = Inr (historical out ! k, counterfactual out ! k, cfn)"
      by auto
    show ?thesis
    proof (cases "Year (gen ! k) \<le> START_YEAR")
      case True
      then show ?thesis
        using emissions_year_baseline [OF y] hist [OF that(1)] by simp
    next
      case False
      then show ?thesis
        using c emissions_year_balance [OF y] emissions_year_year(1) [OF y] by simp
    qed
  qed
  show ?thesis
    using hist cf len by simp
qed

theorem stored_total_near_sum_of_parts_witness:
  "compute_emissions_timeseries ex_generation ex_actual_capacity ex_cf_capacity ex_breakdown ex_breakdown
     = Inr ex_out \<and>
   \<bar>total_twh (historical ex_out ! 1) - (fossil_twh (historical ex_out ! 1)
      + nuclear_twh (historical ex_out ! 1) + renewables_twh (historical ex_out ! 1))\<bar> \<le> 1 / 50 \<and>
   \<bar>total_twh (counterfactual ex_out ! 1) - (fossil_twh (counterfactual ex_out ! 1)
      + nuclear_twh (counterfactual ex_out ! 1) + renewables_twh (counterfactual ex_out ! 1))\<bar> \<le> 1 / 50"
proof -
  have k: "1 < length (historical ex_out)" "1 < length (counterfactual ex_out)"
    by (simp_all add: ex_out_def ex_historical_def)
  have c: "\<forall>b \<in> set ex_breakdown. bd_year b = year (counterfactual ex_out ! 1) \<longrightarrow>
      0 < fossil_hard_coal_mw b + fossil_lignite_mw b + fossil_natural_gas_mw b + fossil_oil_mw b"
    by (simp add: ex_breakdown_def ex_breakdown_row_def)
  from stored_total_near_sum_of_parts [OF ex_run] ex_run k c show ?thesis
    by blast
qed

subsection \<open>The baseline year\<close>

text \<open>
  Claim C7: at the baseline year the counterfactual record is the historical record of that
  year, field for field.
\<close>

theorem baseline_record_is_historical:
  assumes "compute_emissions_timeseries gen ac cc ab cb = Inr out"
    and "k < length (historical out)"
    and "year (historical out ! k) = START_YEAR"
  shows "k < length (counterfactual out) \<and> counterfactual out ! k = historical out ! k"
proof -
  from compute_emissions_pointwise [OF assms(1)] obtain bn fm ft where
    len: "length (counterfactual out) = length gen" "length (historical out) = length gen" and
    step: "\<And>k. k < length gen \<Longrightarrow>
       \<exists>prev cfn. emissions_year ac cc ab cb bn fm ft prev (gen ! k)
         = Inr (historical out ! k, counterfactual out ! k, cfn)"
    by blast
  from step [of k] assms(2) len obtain prev cfn where
    y: "emissions_year ac cc ab cb bn fm ft prev (gen ! k)
         = Inr (historical out ! k, counterfactual out ! k, cfn)"
    by auto
  have "Year (gen ! k) \<le> START_YEAR"
    using assms(3) emissions_year_year(2) [OF y] by simp
  then show ?thesis
    using emissions_year_baseline [OF y] assms(2) len by simp
qed

theorem baseline_record_is_historical_witness:
  "compute_emissions_timeseries ex_generation ex_actual_capacity ex_cf_capacity ex_breakdown ex_breakdown
     = Inr ex_out \<and>
   0 < length (historical ex_out) \<and> year (historical ex_out ! 0) = START_YEAR \<and>
   0 < length (counterfactual ex_out) \<and> counterfactual ex_out ! 0 = historical ex_out ! 0"
proof -
  have k: "0 < length (historical ex_out)"
    by (simp add: ex_out_def ex_historical_def)
  have y: "year (historical ex_out ! 0) = START_YEAR"
    by (simp add: ex_out_def ex_historical_def START_YEAR_def)
  from baseline_record_is_historical [OF ex_run k y] ex_run k y show ?thesis
    by blast
qed

subsection \<open>Renewables\<close>

text \<open>
  Claim C8: from the freeze year on, the counterfactual \<open>renewables_twh\<close> of every year equals
  that of the freeze year; before the freeze year it equals the historical \<open>renewables_twh\<close>
  of the same year.
\<close>

theorem cf_renewables_frozen_from_freeze_year:
  assumes "compute_emissions_timeseries gen ac cc ab cb = Inr out"
  shows "(\<forall>i < length (counterfactual out). \<forall>j < length (counterfactual out).
            RENEWABLE_FREEZE_YEAR \<le> year (counterfactual out ! i) \<and>
            year (counterfactual out ! j) = RENEWABLE_FREEZE_YEAR \<longrightarrow>
            renewables_twh (counterfactual out ! i) = renewables_twh (counterfactual out ! j)) \<and>
         (\<forall>i < length (counterfactual out).
            year (counterfactual out ! i) < RENEWABLE_FREEZE_YEAR \<longrightarrow>
            year (historical out ! i) = year (counterfactual out ! i) \<and>
            renewables_twh (counterfactual out ! i) = renewables_twh (historical out ! i))"
proof -
  from compute_emissions_pointwise [OF assms(1)] obtain bn fm ft where
    len: "length (counterfactual out) = length gen" "length (historical out) = length gen" and
    step: "\<And>k. k < length gen \<Longrightarrow>
       \<exists>prev cfn. emissions_year ac cc ab cb bn fm ft prev (gen ! k)
         = Inr (historical out ! k, counterfactual out ! k, cfn)"
    by blast
  have frozen: "renewables_twh (counterfactual out ! k) = py_round ft 2"
    if "k < length gen" "RENEWABLE_FREEZE_YEAR \<le> year (counterfactual out ! k)" for k
  proof -
    from step [OF that(1)] obtain prev cfn where
      y: "emissions_year ac cc ab cb bn fm ft prev (gen ! k)
         = Inr (historical out ! k, counterfactual out ! k, cfn)"
      by auto
    show ?thesis
      using that(2) emissions_year_renewables(1) [OF y] emissions_year_year(1) [OF y] by simp
  qed
  have before: "year (historical out ! k) = year (counterfactual out ! k) \<and>
      renewables_twh (counterfactual out ! k) = renewables_twh (historical out ! k)"
    if "k < length gen" "year (counterfactual out ! k) < RENEWABLE_FREEZE_YEAR" for k
  proof -
    from step [OF that(1)] obtain prev cfn where
      y: "emissions_year ac cc ab cb bn fm ft prev (gen ! k)
         = Inr (historical out ! k, counterfactual out ! k, cfn)"
      by auto
    show ?thesis
      using that(2) emissions_year_renewables(2) [OF y] emissions_year_year [OF y] by simp
  qed
  show ?thesis
    using frozen before len by simp
qed

theorem cf_renewables_frozen_from_freeze_year_witness:
  "compute_emissions_timeseries ex_generation ex_actual_capacity ex_cf_capacity ex_breakdown ex_breakdown
     = Inr ex_out \<and>
   RENEWABLE_FREEZE_YEAR \<le> year (counterfactual ex_out ! 3) \<and>
   year (counterfactual ex_out ! 2) = RENEWABLE_FREEZE_YEAR \<and>
   renewables_twh (counterfactual ex_out ! 3) = renewables_twh (counterfactual ex_out ! 2) \<and>
   year (counterfactual ex_out ! 1) < RENEWABLE_FREEZE_YEAR \<and>
   renewables_twh (counterfactual ex_out ! 1) = renewables_twh (historical ex_out ! 1)"
proof -
  have k: "3 < length (counterfactual ex_out)" "2 < length (counterfactual ex_out)"
    "1 < length (counterfactual ex_out)"
    by (simp_all add: ex_out_def)
  have y: "RENEWABLE_FREEZE_YEAR \<le> year (counterfactual ex_out ! 3)"
    "year (counterfactual ex_out ! 2) = RENEWABLE_FREEZE_YEAR"
    "year (counterfactual ex_out ! 1) < RENEWABLE_FREEZE_YEAR"
    by (simp_all add: ex_out_def RENEWABLE_FREEZE_YEAR_def)
  from cf_renewables_frozen_from_freeze_year [OF ex_run] ex_run k y show ?thesis
    by blast
qed

subsection \<open>Nuclear output\<close>

text \<open>
  Claim C5: the counterfactual nuclear output never decreases. In the order of the rows, any
  later record after the baseline year has at least the \<open>nuclear_twh\<close> of any earlier record
  after the baseline year. With the rows of the generation series in ascending year order this
  is the order of the years, and it holds from the baseline year on: for years
  \<open>START_YEAR \<le> y1 < y2\<close>, \<open>nuclear_twh\<close> of \<open>y1\<close> is at most that of \<open>y2\<close>, so in
  particular for consecutive years.
\<close>

theorem cf_nuclear_non_decreasing:
  assumes run: "compute_emissions_timeseries gen ac cc ab cb = Inr out"
  shows "(\<forall>j < length (counterfactual out). \<forall>i < j.
            START_YEAR < year (counterfactual out ! i) \<and> START_YEAR < year (counterfactual out ! j) \<longrightarrow>
            nuclear_twh (counterfactual out ! i) \<le> nuclear_twh (counterfactual out ! j)) \<and>
         (sorted_wrt (<) (map Year gen) \<longrightarrow>
           (\<forall>i < length (counterfactual out). \<forall>j < length (counterfactual out).
              START_YEAR \<le> year (counterfactual out ! i) \<and>
              year (counterfactual out ! i) < year (counterfactual out ! j) \<longrightarrow>
              nuclear_twh (counterfactual out ! i) \<le> nuclear_twh (counterfactual out ! j)))"
proof -
  from run obtain bn fm ft where
    loop: "emissions_loop (emissions_year ac cc ab cb bn fm ft) bn gen = Inr out" and
    bn: "bn = base_value (case filter (\<lambda>r. Year r = START_YEAR) gen of [] \<Rightarrow> hd gen | r # _ \<Rightarrow> r) Nuclear"
    by (rule compute_emissions_loop)
  have pw: "length (historical out) = length gen \<and> length (counterfactual out) = length gen \<and>
    (\<forall>k < length gen. \<exists>prev cfn. emissions_year ac cc ab cb bn fm ft prev (gen ! k)
         = Inr (historical out ! k, counterfactual out ! k, cfn))"
    by (rule emissions_loop_pointwise [OF loop]) blast
  then have len: "length (counterfactual out) = length gen"
    by simp
  have yr: "year (counterfactual out ! k) = Year (gen ! k)" if "k < length gen" for k
    using pw that emissions_year_year(1) by blast
  have chain: "nuclear_twh (counterfactual out ! i) \<le> nuclear_twh (counterfactual out ! j)"
    if "j < length gen" "i < j" "START_YEAR < Year (gen ! i)" "START_YEAR < Year (gen ! j)" for i j
    using emissions_loop_nuclear_chain [OF loop] that by blast
  have lower: "py_round bn 2 \<le> nuclear_twh (counterfactual out ! k)"
    if "k < length gen" "START_YEAR < Year (gen ! k)" for k
    using emissions_loop_nuclear_lower [OF loop order_refl] that by blast
  have by_year: "nuclear_twh (counterfactual out ! i) \<le> nuclear_twh (counterfactual out ! j)"
    if srt: "sorted_wrt (<) (map Year gen)" and i: "i < length gen" and j: "j < length gen"
      and lo: "START_YEAR \<le> Year (gen ! i)" and lt: "Year (gen ! i) < Year (gen ! j)" for i j
  proof -
    have "i < j"
    proof (rule ccontr)
      assume "\<not> i < j"
      then have "j \<le> i"
        by simp
      moreover have "sorted (map Year gen)"
        using srt by (simp add: sorted_wrt_mono_rel [of _ "(<)" "(\<le>)"])
      ultimately have "Year (gen ! j) \<le> Year (gen ! i)"
        using i j sorted_nth_mono [of "map Year gen" j i] by simp
      then show False
        using lt by simp
    qed
    show ?thesis
    proof (cases "START_YEAR < Year (gen ! i)")
      case True
      then show ?thesis
        using chain [OF j \<open>i < j\<close>] lt by simp
    next
      case False
      then have eq: "Year (gen ! i) = START_YEAR"
        using lo by simp
      have "filter (\<lambda>r. Year r = START_YEAR) gen = [gen ! i]"
        by (rule sorted_wrt_less_unique_filter [OF srt i eq])
      then have b: "bn = get_value (gen ! i) Nuclear"
        by (simp add: bn base_value_def get_value_def)
      from pw i obtain prev cfn where
        y: "emissions_year ac cc ab cb bn fm ft prev (gen ! i)
             = Inr (historical out ! i, counterfactual out ! i, cfn)"
        by blast
      have "counterfactual out ! i = actual_record (gen ! i)"
        using emissions_year_baseline [OF y] emissions_year_actual [OF y] eq by simp
      then have "nuclear_twh (counterfactual out ! i) = py_round bn 2"
        by (simp add: b actual_record_def Let_def)
      then show ?thesis
        using lower [OF j] lt eq by simp
    qed
  qed
  show ?thesis
    using chain by_year by (simp add: len yr)
qed

theorem cf_nuclear_non_decreasing_witness:
  "compute_emissions_timeseries ex_generation ex_actual_capacity ex_cf_capacity ex_breakdown ex_breakdown
     = Inr ex_out \<and>
   sorted_wrt (<) (map Year ex_generation) \<and>
   START_YEAR \<le> year (counterfactual ex_out ! 0) \<and>
   year (counterfactual ex_out ! 0) < year (counterfactual ex_out ! 1) \<and>
   nuclear_twh (counterfactual ex_out ! 0) \<le> nuclear_twh (counterfactual ex_out ! 1) \<and>
   START_YEAR < year (counterfactual ex_out ! 1) \<and>
   START_YEAR < year (counterfactual ex_out ! 3) \<and>
   nuclear_twh (counterfactual ex_out ! 1) \<le> nuclear_twh (counterfactual ex_out ! 3)"
proof -
  have k: "0 < length (counterfactual ex_out)" "1 < length (counterfactual ex_out)"
    "3 < length (counterfactual ex_out)" "(1::nat) < 3"
    by (simp_all add: ex_out_def)
  have s: "sorted_wrt (<) (map Year ex_generation)"
    by (simp add: ex_generation_def)
  have y: "START_YEAR \<le> year (counterfactual ex_out ! 0)"
    "year (counterfactual ex_out ! 0) < year (counterfactual ex_out ! 1)"
    "START_YEAR < year (counterfactual ex_out ! 1)"
    "START_YEAR < year (counterfactual ex_out ! 3)"
    by (simp_all add: ex_out_def ex_historical_def START_YEAR_def)
  from cf_nuclear_non_decreasing [OF ex_run] ex_run k s y show ?thesis
    by blast
qed

section \<open>Properties of the closure selector\<close>

lemma scenario_pools:
  "build_fossil_candidate_pools [row_A, row_B, row_C] = ([plant_A, plant_C, plant_B], [])"
  by code_simp

text \<open>
  Claim C3: of the plants A (lignite, 200 MW, 1980), B (natural gas, 150 MW, 1995) and C (oil,
  50 MW, 1970, closed 2000) the pool is ordered A, C, B. In 2001, with 250 MW needed, enough
  running fossil capacity and no plant closed so far, the selector closes A alone: C is out
  since 2000 and B is larger than the 50 MW still needed. It returns 200 MW, and 50 MW of the
  target stay open as residual.
\<close>

theorem selector_scenario_250_in_2001:
  assumes "200 \<le> rf"
  shows "build_fossil_candidate_pools [row_A, row_B, row_C] = ([plant_A, plant_C, plant_B], []) \<and>
         pick_fossil_closures 2001 250 rf [plant_A, plant_C, plant_B] [] {}
           = ([plant_A], 200, {0}) \<and>
         residual_closure_of 250 200 = 50"
  using assms
  by (simp add: scenario_pools plant_A_def plant_B_def plant_C_def pick_fossil_closures_def
      residual_closure_of_def Let_def)

theorem selector_scenario_250_in_2001_witness:
  "(200::rat) \<le> 1000 \<and>
   build_fossil_candidate_pools [row_A, row_B, row_C] = ([plant_A, plant_C, plant_B], []) \<and>
   pick_fossil_closures 2001 250 1000 [plant_A, plant_C, plant_B] [] {} = ([plant_A], 200, {0}) \<and>
   residual_closure_of 250 200 = 50"
proof -
  have h: "(200::rat) \<le> 1000"
    by simp
  from selector_scenario_250_in_2001 [OF h] h show ?thesis
    by blast
qed

text \<open>
  Claim C9: called with \<open>capacity_needed \<le> 0\<close> or \<open>running_fossil \<le> 0\<close>, the selector
  returns no closings and a closed capacity of 0, and the set of closed ids is the one it was
  given.
\<close>

theorem no_closures_without_need:
  assumes "capacity_needed \<le> 0 \<or> rf \<le> 0"
  shows "pick_fossil_closures y capacity_needed rf primary fallback ids
           = ([], 0, ids)"
  using assms by (auto simp: pick_fossil_closures_def)

theorem no_closures_without_need_witness:
  "((0::rat) \<le> 0 \<or> (1000::rat) \<le> 0) \<and>
   pick_fossil_closures 2001 0 1000 [plant_A, plant_C, plant_B] [] {7} = ([], 0, {7})"
proof -
  have h: "(0::rat) \<le> 0 \<or> (1000::rat) \<le> 0"
    by simp
  from no_closures_without_need [OF h] h show ?thesis
    by blast
qed

subsection \<open>The closed capacity against the need\<close>

lemma consume_bound:
  assumes "st_remaining_needed st = max 0 (capacity_needed - st_total_closed st)"
    and "st_total_closed st \<le> capacity_needed + 1 / 1000000"
  shows "st_remaining_needed (consume y capacity_needed pool st)
           = max 0 (capacity_needed - st_total_closed (consume y capacity_needed pool st)) \<and>
         st_total_closed (consume y capacity_needed pool st) \<le> capacity_needed + 1 / 1000000"
  using assms
proof (induction pool arbitrary: st)
  case Nil
  then show ?case
    by simp
next
  case (Cons plant pool)
  show ?case
  proof (cases "st_remaining_needed st \<le> 1 / 1000000")
    case True
    then show ?thesis
      using Cons.prems by simp
  next
    case open_need: False
    show ?thesis
    proof (cases "record_id plant \<in> st_closed_ids st
        \<or> (case commission_year plant of None \<Rightarrow> False | Some c \<Rightarrow> y < c)
        \<or> (case closure_year plant of None \<Rightarrow> False | Some c \<Rightarrow> c < y)
        \<or> st_remaining_needed st + 1 / 1000000 < capacity_mw plant")
      case True
      then have "consume y capacity_needed (plant # pool) st = consume y capacity_needed pool st"
        using open_need by auto
      then show ?thesis
        using Cons.IH [OF Cons.prems] by simp
    next
      case False
      define total where "total = st_total_closed st + capacity_mw plant"
      define st' where "st' = \<lparr> st_closings = st_closings st @ [plant],
                     st_closed_ids = insert (record_id plant) (st_closed_ids st),
                     st_total_closed = total,
                     st_remaining_needed = max 0 (capacity_needed - total) \<rparr>"
      have fits: "capacity_mw plant \<le> st_remaining_needed st + 1 / 1000000"
        using False by simp
      have "st_remaining_needed st = capacity_needed - st_total_closed st"
        using open_need Cons.prems(1) by (simp add: max_def split: if_splits)
      then have bound: "total \<le> capacity_needed + 1 / 1000000"
        using fits by (simp add: total_def)
      have inv: "st_remaining_needed st' = max 0 (capacity_needed - st_total_closed st')"
        "st_total_closed st' \<le> capacity_needed + 1 / 1000000"
        using bound by (simp_all add: st'_def)
      have unfold: "consume y capacity_needed (plant # pool) st
          = (if st_remaining_needed st' \<le> 1 / 1000000 then st' else consume y capacity_needed pool st')"
        using False open_need
        by (simp only: consume.simps Let_def st'_def total_def de_Morgan_disj if_False simp_thms)
      show ?thesis
        using unfold inv Cons.IH [OF inv] by simp
    qed
  qed
qed

lemma pick_fossil_closures_bound:
  "fst (snd (pick_fossil_closures y capacity_needed rf primary fallback ids))
     \<le> max 0 capacity_needed + 1 / 1000000"
proof (cases "rf \<le> 0 \<or> capacity_needed \<le> 0 \<or> max capacity_needed 0 \<le> 1 / 1000000")
  case True
  then show ?thesis
    by (auto simp: pick_fossil_closures_def Let_def max_def)
next
  case False
  define st0 where "st0 = \<lparr> st_closings = [], st_closed_ids = ids, st_total_closed = 0,
                           st_remaining_needed = max capacity_needed 0 \<rparr>"
  define st1 where "st1 = consume y capacity_needed primary st0"
  define st2 where "st2 = (if 1 / 1000000 < st_remaining_needed st1
                          then consume y capacity_needed fallback st1 else st1)"
  have i0: "st_remaining_needed st0 = max 0 (capacity_needed - st_total_closed st0)"
    "st_total_closed st0 \<le> capacity_needed + 1 / 1000000"
    using False by (simp_all add: st0_def max.commute)
  have i1: "st_remaining_needed st1 = max 0 (capacity_needed - st_total_closed st1)"
    "st_total_closed st1 \<le> capacity_needed + 1 / 1000000"
    using consume_bound [OF i0] by (simp_all add: st1_def)
  have "st_total_closed st2 \<le> capacity_needed + 1 / 1000000"
    using consume_bound [OF i1] i1 by (simp add: st2_def)
  moreover have "\<not> rf \<le> 0" "\<not> capacity_needed \<le> 0"
    "max capacity_needed 0 = capacity_needed" "\<not> capacity_needed \<le> 1 / 1000000"
    using False by (auto simp: max_def)
  then have "pick_fossil_closures y capacity_needed rf primary fallback ids
      = (st_closings st2, min (st_total_closed st2) rf, st_closed_ids st2)"
    by (simp add: pick_fossil_closures_def Let_def st0_def st1_def st2_def)
  ultimately show ?thesis
    using False by (simp add: min_def max_def)
qed


lemma select_closures_bound:
  "fst (snd (select_closures env y target st)) \<le> max 0 target + 1 / 1000000"
  using pick_fossil_closures_bound [of y target "running_fossil st" "primary_pool env"
      "fallback_pool env" "closed_record_ids st"]
  by (auto simp: select_closures_def max_def)

lemma capacity_added_positive:
  "0 < NUCLEAR_CAPACITY_SEQUENCE ! (n mod length NUCLEAR_CAPACITY_SEQUENCE)"
  by (simp add: NUCLEAR_CAPACITY_SEQUENCE_def)

lemma closure_target_nonneg:
  "0 \<le> capacity_added \<Longrightarrow> 0 \<le> closure_target_of capacity_added fossil_before floor_mw"
  by (simp add: closure_target_of_def Let_def)

text \<open>
  Claim C10 says that for every call the closed capacity is at most
  \<open>capacity_needed + 1e-6\<close>. Called with a negative \<open>capacity_needed\<close> the selector returns
  0, which is more.
\<close>

theorem closed_capacity_above_negative_need:
  "pick_fossil_closures 2001 (- 5) 1000 [plant_A, plant_C, plant_B] [] {} = ([], 0, {}) \<and>
   \<not> fst (snd (pick_fossil_closures 2001 (- 5) 1000 [plant_A, plant_C, plant_B] [] {}))
       \<le> - 5 + 1 / 1000000"
  by (simp add: pick_fossil_closures_def)

text \<open>
  Claim C10, amended: in exact arithmetic the closed capacity the selector returns is at most
  \<open>max 0 capacity_needed + 1e-6\<close>, so at most \<open>capacity_needed + 1e-6\<close> for every call with
  \<open>capacity_needed \<ge> 0\<close>. The target of a unit is never negative and the simulator calls the
  selector only when it is positive, so the test \<open>fossil_closed > closure_target_mw + 1e-6\<close>
  is false for every unit and the rollback changes nothing.
\<close>

theorem rollback_unreachable:
  "fst (snd (pick_fossil_closures y capacity_needed rf primary fallback ids))
     \<le> max 0 capacity_needed + 1 / 1000000 \<and>
   (let capacity_added =
          NUCLEAR_CAPACITY_SEQUENCE ! (nuclear_build_count st mod length NUCLEAR_CAPACITY_SEQUENCE);
        fossil_floor_mw =
          fossil_floor_of actual_total_mw (running_nuclear st + capacity_added) other_capacity;
        target = closure_target_of capacity_added (running_fossil st) fossil_floor_mw
    in \<not> overshoot target (fst (snd (select_closures env y target st))) \<and>
       rollback_overshoot target (select_closures env y target st)
         = (target, select_closures env y target st))"
proof -
  define capacity_added where "capacity_added =
    NUCLEAR_CAPACITY_SEQUENCE ! (nuclear_build_count st mod length NUCLEAR_CAPACITY_SEQUENCE)"
  define target where "target = closure_target_of capacity_added (running_fossil st)
    (fossil_floor_of actual_total_mw (running_nuclear st + capacity_added) other_capacity)"
  have "0 \<le> target"
    unfolding target_def
    by (rule closure_target_nonneg) (simp add: capacity_added_def NUCLEAR_CAPACITY_SEQUENCE_def)
  then have no: "\<not> overshoot target (fst (snd (select_closures env y target st)))"
    using select_closures_bound [of env y target st] by (simp add: overshoot_def)
  then have "rollback_overshoot target (select_closures env y target st)
         = (target, select_closures env y target st)"
    by (cases "select_closures env y target st") (simp add: rollback_overshoot_def)
  with no show ?thesis
    using pick_fossil_closures_bound [of y capacity_needed rf primary fallback ids]
    by (simp add: Let_def capacity_added_def target_def)
qed
section \<open>Properties of the simulator\<close>

subsection \<open>The example fleet, run\<close>

lemma ex_simulation_1990:
  "build_counterfactual_events ex_plants [] ex_actual_1990 1990 1990
     = Inr (ex_events_1990, [ex_row_1990])"
  by code_simp

lemma ex_simulation_1989:
  "build_counterfactual_events ex_plants [] ex_actual_1989 1989 1989 = Inr ([], [ex_row_1989])"
  by code_simp

subsection \<open>The fossil floor\<close>

lemma build_unit_floor:
  "fossil_floor_of actual_total_mw
       (running_nuclear (build_unit env y units other_capacity actual_total_mw i st)) other_capacity
     \<le> running_fossil (build_unit env y units other_capacity actual_total_mw i st)"
  by (auto simp: build_unit_def Let_def split: prod.splits)

lemma units_this_year_cases:
  "BUILD_START_YEAR \<le> y \<Longrightarrow> units_this_year y = 1 \<or> units_this_year y = 2"
  "y < BUILD_START_YEAR \<Longrightarrow> units_this_year y = 0"
proof -
  assume "BUILD_START_YEAR \<le> y"
  have "(y - BUILD_START_YEAR) mod 2 = 0 \<or> (y - BUILD_START_YEAR) mod 2 = 1"
    by presburger
  then show "units_this_year y = 1 \<or> units_this_year y = 2"
    using \<open>BUILD_START_YEAR \<le> y\<close>
    by (auto simp: units_this_year_def UNITS_PER_YEAR_PATTERN_def)
next
  assume "y < BUILD_START_YEAR"
  then show "units_this_year y = 0"
    by (simp add: units_this_year_def)
qed

text \<open>
  Claim C4 says that in every simulated year the running fossil capacity after the year's units
  is at least the fossil floor of the year. No unit is built before \<open>BUILD_START_YEAR\<close>, and
  the floor is applied only when a unit is built: in 1989 the fleet's 2700 MW of fossil capacity
  stay as they are, while the actual total of 4600 MW (with a fossil plant commissioned in
  1989) gives a floor of 3200 MW.
\<close>

theorem floor_not_kept_before_build_start:
  "build_counterfactual_events ex_plants [] ex_actual_1989 1989 1989 = Inr ([], [ex_row_1989]) \<and>
   ts_year ex_row_1989 = 1989 \<and>
   actual_row_of_year ex_actual_1989 1989 = Inr (hd ex_actual_1989) \<and>
   ts_fossil_mw ex_row_1989 = 2700 \<and>
   fossil_floor_of (total_mw (hd ex_actual_1989)) (ts_nuclear_mw ex_row_1989)
     (other_mw (hd ex_actual_1989)) = 3200 \<and>
   \<not> fossil_floor_of (total_mw (hd ex_actual_1989)) (ts_nuclear_mw ex_row_1989)
       (other_mw (hd ex_actual_1989)) \<le> ts_fossil_mw ex_row_1989"
  using ex_simulation_1989
  by (simp add: ex_row_1989_def ex_actual_1989_def actual_row_of_year_def fossil_floor_of_def)

text \<open>
  Claim C4, amended: for every simulated year from \<open>BUILD_START_YEAR\<close> on, whatever the state
  the year starts in, the running fossil capacity after the year's units is at least the fossil
  floor \<open>max 0 (actual total of the year - (nuclear capacity after the year's last build + other
  capacity of the year))\<close>. The yearly row appended for the year records the two running
  capacities rounded to one decimal.
\<close>

theorem running_fossil_at_least_floor:
  assumes "simulate_year env y st = Inr st1" and "BUILD_START_YEAR \<le> y"
  shows "\<exists>actual_row. actual_row_of_year (actual_capacity env) y = Inr actual_row \<and>
     max 0 (total_mw actual_row - (running_nuclear st1 + other_mw actual_row)) \<le> running_fossil st1 \<and>
     ts_fossil_mw (last (timeseries_rows st1)) = py_round (running_fossil st1) 1 \<and>
     ts_nuclear_mw (last (timeseries_rows st1)) = py_round (running_nuclear st1) 1 \<and>
     ts_year (last (timeseries_rows st1)) = y"
proof -
  from assms(1) obtain actual_row other where
    row: "actual_row_of_year (actual_capacity env) y = Inr actual_row" and
    other: "other_mw_of_year (actual_capacity env) y = Inr other"
    by (auto simp: simulate_year_def Let_def split: sum.splits)
  define st2 where "st2 = fold (build_unit env y (units_this_year y) (other_mw actual_row)
      (total_mw actual_row)) [0..<units_this_year y] st"
  have after: "running_fossil st1 = running_fossil st2" "running_nuclear st1 = running_nuclear st2"
    "ts_fossil_mw (last (timeseries_rows st1)) = py_round (running_fossil st2) 1"
    "ts_nuclear_mw (last (timeseries_rows st1)) = py_round (running_nuclear st2) 1"
    "ts_year (last (timeseries_rows st1)) = y"
    using assms(1) row other by (auto simp: simulate_year_def Let_def st2_def)
  have "fossil_floor_of (total_mw actual_row) (running_nuclear st2) (other_mw actual_row)
      \<le> running_fossil st2"
    using units_this_year_cases(1) [OF assms(2)]
  proof
    assume "units_this_year y = 1"
    then show ?thesis
      by (simp add: st2_def build_unit_floor)
  next
    assume "units_this_year y = 2"
    then have "[0..<units_this_year y] = [0, 1]"
      by (simp add: upt_rec)
    then show ?thesis
      by (simp add: st2_def build_unit_floor)
  qed
  then show ?thesis
    using row after by (simp add: fossil_floor_of_def)
qed

theorem running_fossil_at_least_floor_witness:
  "\<exists>st1. simulate_year ex_env 1990 ex_state = Inr st1 \<and> BUILD_START_YEAR \<le> 1990 \<and>
     (\<exists>actual_row. actual_row_of_year (actual_capacity ex_env) 1990 = Inr actual_row \<and>
        max 0 (total_mw actual_row - (running_nuclear st1 + other_mw actual_row)) \<le> running_fossil st1 \<and>
        ts_fossil_mw (last (timeseries_rows st1)) = py_round (running_fossil st1) 1 \<and>
        ts_nuclear_mw (last (timeseries_rows st1)) = py_round (running_nuclear st1) 1 \<and>
        ts_year (last (timeseries_rows st1)) = 1990)"
proof -
  have "\<exists>st1. simulate_year ex_env 1990 ex_state = Inr st1"
    by (simp add: simulate_year_def actual_row_of_year_def other_mw_of_year_def ex_env_def
        ex_actual_1990_def Let_def)
  then obtain st1 where run: "simulate_year ex_env 1990 ex_state = Inr st1"
    by blast
  have y: "BUILD_START_YEAR \<le> 1990"
    by (simp add: BUILD_START_YEAR_def)
  from running_fossil_at_least_floor [OF run y] run y show ?thesis
    by blast
qed

subsection \<open>The order of the events\<close>

lemma closure_loop_entries:
  assumes "closure_loop event_date y floor_mw dummy cl remaining breakdown = (entries, r1, b1)"
  shows "\<forall>e \<in> set entries. ev_year e = y \<and> ev_date e = event_date"
  using assms
proof (induction cl arbitrary: remaining breakdown entries r1 b1)
  case Nil
  then show ?case
    by simp
next
  case (Cons closing rest)
  then show ?case
    by (auto simp: Let_def split: prod.splits)
qed

lemma closure_entries_of_entries:
  assumes "closure_entries_of event_date y floor_mw residual cl before breakdown = (entries, r1, b1, sc)"
  shows "\<forall>e \<in> set entries. ev_year e = y \<and> ev_date e = event_date"
  using assms closure_loop_entries
  by (auto simp: closure_entries_of_def Let_def split: if_splits prod.splits)

lemma build_unit_events:
  "\<exists>new. events (build_unit env y units other_capacity actual_total_mw i st) = events st @ new \<and>
     (\<forall>e \<in> set new. ev_year e = y \<and> ev_date e = event_date_of y (event_month units i))"
proof -
  obtain tg cl fc ids where sel: "rollback_overshoot
      (closure_target_of (NUCLEAR_CAPACITY_SEQUENCE ! (nuclear_build_count st mod length NUCLEAR_CAPACITY_SEQUENCE))
         (running_fossil st)
         (fossil_floor_of actual_total_mw (running_nuclear st + NUCLEAR_CAPACITY_SEQUENCE ! (nuclear_build_count st mod length NUCLEAR_CAPACITY_SEQUENCE)) other_capacity))
      (select_closures env y
         (closure_target_of (NUCLEAR_CAPACITY_SEQUENCE ! (nuclear_build_count st mod length NUCLEAR_CAPACITY_SEQUENCE))
           (running_fossil st)
           (fossil_floor_of actual_total_mw (running_nuclear st + NUCLEAR_CAPACITY_SEQUENCE ! (nuclear_build_count st mod length NUCLEAR_CAPACITY_SEQUENCE)) other_capacity))
         st) = (tg, cl, fc, ids)"
    using prod_cases4 by blast
  obtain lab mun un st1 where al: "allocate_site env cl st = ((lab, mun, un), st1)"
    by (cases "allocate_site env cl st") auto
  obtain entries r1 b1 sc where ce: "closure_entries_of (event_date_of y (event_month units i)) y
      (fossil_floor_of actual_total_mw (running_nuclear st + NUCLEAR_CAPACITY_SEQUENCE ! (nuclear_build_count st mod length NUCLEAR_CAPACITY_SEQUENCE)) other_capacity)
      (residual_closure_of tg fc) cl (running_fossil st) (running_fossil_breakdown st) = (entries, r1, b1, sc)"
    using prod_cases4 by blast
  have "events st1 = events st"
    using al by (auto simp: allocate_site_def Let_def split: prod.splits)
  then show ?thesis
    using sel al ce closure_entries_of_entries [OF ce]
    by (simp add: build_unit_def Let_def)
qed


lemma append_same_le:
  fixes a b :: "'a::linorder list"
  assumes "a \<le> b"
  shows "xs @ a \<le> xs @ b"
  using assms by (induction xs) simp_all

lemma event_date_april_october: "event_date_of y 4 \<le> event_date_of y 10"
  unfolding event_date_of_def
  by (rule append_same_le) code_simp

lemma event_month_values:
  "event_month 1 0 = 7" "event_month 2 0 = 4" "event_month 2 (Suc 0) = 10"
  by (simp_all add: event_month_def EVENT_MONTHS_def)

lemma sorted_same_key:
  assumes "\<forall>e \<in> set xs. f e = (k :: 'k :: linorder)"
  shows "sorted (map f xs)"
  using assms by (induction xs) auto

lemma units_fold_events:
  "\<exists>new. events (fold (build_unit env y (units_this_year y) other_capacity actual_total_mw)
             [0..<units_this_year y] st) = events st @ new \<and>
     (\<forall>e \<in> set new. ev_year e = y) \<and> sorted (map event_date_key new)"
proof -
  consider "units_this_year y = 0" | "units_this_year y = 1" | "units_this_year y = 2"
    using units_this_year_cases [of y] by fastforce
  then show ?thesis
  proof cases
    case 1
    then show ?thesis
      by simp
  next
    case 2
    obtain new where new: "events (build_unit env y 1 other_capacity actual_total_mw 0 st) = events st @ new"
      "\<forall>e \<in> set new. ev_year e = y \<and> ev_date e = event_date_of y (event_month 1 0)"
      using build_unit_events by blast
    then have "\<forall>e \<in> set new. event_date_key e = (y, event_date_of y (event_month 1 0))"
      by (simp add: event_date_key_def)
    then have "sorted (map event_date_key new)"
      by (rule sorted_same_key)
    then show ?thesis
      using 2 new by auto
  next
    case 3
    define st_a where "st_a = build_unit env y 2 other_capacity actual_total_mw 0 st"
    obtain new_a where new_a: "events st_a = events st @ new_a"
      "\<forall>e \<in> set new_a. ev_year e = y \<and> ev_date e = event_date_of y 4"
      unfolding st_a_def using build_unit_events [of env y 2 other_capacity actual_total_mw 0 st]
      by (auto simp: event_month_values)
    obtain new_b where new_b:
      "events (build_unit env y 2 other_capacity actual_total_mw 1 st_a) = events st_a @ new_b"
      "\<forall>e \<in> set new_b. ev_year e = y \<and> ev_date e = event_date_of y 10"
      using build_unit_events [of env y 2 other_capacity actual_total_mw 1 st_a]
      by (auto simp: event_month_values)
    have ka: "\<forall>e \<in> set new_a. event_date_key e = (y, event_date_of y 4)"
      and kb: "\<forall>e \<in> set new_b. event_date_key e = (y, event_date_of y 10)"
      using new_a(2) new_b(2) by (simp_all add: event_date_key_def)
    have "sorted (map event_date_key new_a)"
      using ka by (rule sorted_same_key)
    moreover have "sorted (map event_date_key new_b)"
      using kb by (rule sorted_same_key)
    moreover have "\<forall>a \<in> set new_a. \<forall>b \<in> set new_b. event_date_key a \<le> event_date_key b"
      using ka kb event_date_april_october [of y] by (simp add: less_eq_prod_def)
    ultimately have "sorted (map event_date_key (new_a @ new_b))"
      by (simp add: sorted_append)
    moreover have "[0..<units_this_year y] = [0, 1]"
      using 3 by (simp add: upt_rec)
    ultimately show ?thesis
      using 3 new_a new_b by (auto simp: st_a_def)
  qed
qed

lemma simulate_year_events:
  assumes "simulate_year env y st = Inr st1"
  shows "\<exists>new. events st1 = events st @ new \<and>
     (\<forall>e \<in> set new. ev_year e = y) \<and> sorted (map event_date_key new)"
proof -
  from assms obtain actual_row other where
    row: "actual_row_of_year (actual_capacity env) y = Inr actual_row" and
    other: "other_mw_of_year (actual_capacity env) y = Inr other"
    by (auto simp: simulate_year_def Let_def split: sum.splits)
  have "events st1 = events (fold (build_unit env y (units_this_year y) (other_mw actual_row)
        (total_mw actual_row)) [0..<units_this_year y] st)"
    using assms row other by (auto simp: simulate_year_def Let_def)
  then show ?thesis
    using units_fold_events by simp
qed

lemma simulate_years_events:
  assumes "simulate_years env ys st = Inr st1"
    and "sorted_wrt (<) ys"
    and "sorted (map event_date_key (events st))"
    and "\<forall>e \<in> set (events st). \<forall>y \<in> set ys. ev_year e < y"
  shows "sorted (map event_date_key (events st1))"
  using assms
proof (induction ys arbitrary: st)
  case Nil
  then show ?case
    by simp
next
  case (Cons y ys)
  from Cons.prems(1) obtain st2 where
    year: "simulate_year env y st = Inr st2" and rest: "simulate_years env ys st2 = Inr st1"
    by (auto split: sum.splits)
  from simulate_year_events [OF year] obtain new where
    new: "events st2 = events st @ new" "\<forall>e \<in> set new. ev_year e = y" "sorted (map event_date_key new)"
    by blast
  have "\<forall>a \<in> set (events st). \<forall>b \<in> set new. event_date_key a \<le> event_date_key b"
    using Cons.prems(4) new(2) by (simp add: event_date_key_def less_eq_prod_def)
  then have "sorted (map event_date_key (events st2))"
    using Cons.prems(3) new by (simp add: sorted_append)
  moreover have "\<forall>e \<in> set (events st2). \<forall>y' \<in> set ys. ev_year e < y'"
    using Cons.prems(2,4) new by auto
  moreover have "sorted_wrt (<) ys"
    using Cons.prems(2) by simp
  ultimately show ?case
    using Cons.IH [OF rest] by simp
qed

lemma counterfactual_events_by_date:
  assumes "build_counterfactual_events plants planned actual start_year end_year = Inr (evs, rows)"
  shows "sorted (map event_date_key evs)"
proof -
  from assms obtain env st0 st where
    "simulate_years env [start_year..end_year] st0 = Inr st" "events st0 = []" "evs = events st"
    by (auto simp: build_counterfactual_events_def Let_def
        split: if_splits sum.splits prod.splits list.splits)
  then show ?thesis
    using simulate_years_events [of env "[start_year..end_year]" st0 st] by simp
qed

lemma historical_events_sorted:
  "sorted (map event_order_key (build_historical_events fossil_builds plants start_year end_year))"
  by (simp add: build_historical_events_def Let_def)

text \<open>
  Claim C6 says that both event lists are sorted by year, then date, then name. The
  counterfactual list is not sorted by name: the closures of a unit come in the order in which
  the selector picked the plants, here Zeta before Alpha on the same day.
\<close>

theorem counterfactual_events_not_ordered_by_name:
  "build_counterfactual_events ex_plants [] ex_actual_1990 1990 1990
     = Inr (ex_events_1990, [ex_row_1990]) \<and>
   event_order_key (ex_events_1990 ! 0) = (1990, ''1990-04-01'', ''Zeta (Zstadt)'') \<and>
   event_order_key (ex_events_1990 ! 1) = (1990, ''1990-04-01'', ''Alpha (Astadt)'') \<and>
   \<not> event_order_key (ex_events_1990 ! 0) \<le> event_order_key (ex_events_1990 ! 1)"
  using ex_simulation_1990
  by (simp add: ex_events_1990_def event_order_key_def less_eq_prod_def less_prod_def)

text \<open>
  Claim C6, amended: the historical event list is sorted by year, then date, then name; the
  counterfactual event list is sorted by year, then date, and the events of one date stand in
  the order in which the simulator emits them (the closures of a unit, then its build).
\<close>

theorem events_in_chronological_order:
  assumes "build_counterfactual_events plants planned actual start_year end_year = Inr (evs, rows)"
  shows "sorted (map event_order_key (build_historical_events fossil_builds plants start_year end_year)) \<and>
         sorted (map event_date_key evs)"
  using counterfactual_events_by_date [OF assms] historical_events_sorted by simp

theorem events_in_chronological_order_witness:
  "build_counterfactual_events ex_plants [] ex_actual_1990 1990 1990
     = Inr (ex_events_1990, [ex_row_1990]) \<and>
   sorted (map event_order_key (build_historical_events [] ex_plants 1990 1990)) \<and>
   sorted (map event_date_key ex_events_1990)"
  using events_in_chronological_order [OF ex_simulation_1990] ex_simulation_1990 by simp

end
